theory Spec2Isabelle
  imports Complex_Main
begin

section \<open>The entity state machine (hooks/useEntityState.ts)\<close>

text \<open>
  JavaScript numbers are modelled as real numbers: arithmetic is exact, and
  \<open>Math.pow\<close>, \<open>Math.min\<close>, \<open>Math.max\<close>, \<open>Math.sqrt\<close>, \<open>Math.sin\<close> and
  \<open>Math.cos\<close> are their mathematical counterparts.
\<close>

datatype EntityState = resting | thinking | acting

record TransitionState =
  tr_from :: EntityState
  tr_to :: EntityState
  progress :: real
  isTransitioning :: bool

text \<open>The string a state is written as in the key of the duration table.\<close>

fun stateName :: "EntityState \<Rightarrow> string" where
  "stateName resting = ''resting''"
| "stateName thinking = ''thinking''"
| "stateName acting = ''acting''"

definition TRANSITION_DURATIONS :: "(string \<times> real) list" where
  "TRANSITION_DURATIONS =
    [(''resting-thinking'', 1500),
     (''thinking-acting'', 600),
     (''acting-resting'', 2000),
     (''thinking-resting'', 1200),
     (''resting-acting'', 800),
     (''acting-thinking'', 1000)]"

text \<open>
  \<open>TRANSITION_DURATIONS[`${from}-${to}`] || 1000\<close>: a missing key reads as
  \<open>undefined\<close>, and \<open>||\<close> replaces every falsy value (\<open>undefined\<close>, \<open>0\<close>) by 1000.
\<close>

definition getTransitionDuration :: "EntityState \<Rightarrow> EntityState \<Rightarrow> real" where
  "getTransitionDuration from to =
    (case map_of TRANSITION_DURATIONS (stateName from @ ''-'' @ stateName to) of
       None \<Rightarrow> 1000
     | Some d \<Rightarrow> if d = 0 then 1000 else d)"

definition easeInOutCubic :: "real \<Rightarrow> real" where
  "easeInOutCubic t =
    (if t < 0.5 then 4 * t * t * t else 1 - (- 2 * t + 2) ^ 3 / 2)"

text \<open>
  The hook's state: the two \<open>useState\<close> cells and the \<open>transitionRef\<close> cell.
  \<open>animationFrameRef\<close> only keeps the handle of the pending frame request for the
  clean-up function; no value is computed from it.
\<close>

record TransitionRef =
  startTime :: real
  duration :: real

record EngineState =
  currentState :: EntityState
  transition :: TransitionState
  transitionRef :: "TransitionRef option"

definition useEntityState_init :: EngineState where
  "useEntityState_init =
    \<lparr>currentState = resting,
     transition = \<lparr>tr_from = resting, tr_to = resting, progress = 1, isTransitioning = False\<rparr>,
     transitionRef = None\<rparr>"

text \<open>
  The hook between two renders. The callbacks of the last render have closed over the
  values that render read from the two \<open>useState\<close> cells, so \<open>currentState\<close> and
  \<open>transition\<close> of \<open>cells\<close> are the values those callbacks see. A value passed to
  \<open>setTransition\<close> is only queued and reaches the cell with the next render; a write to
  \<open>transitionRef.current\<close> takes effect at once, so \<open>transitionRef\<close> of \<open>cells\<close> is the
  current content of the ref.
\<close>

record PendingHook =
  cells :: EngineState
  queued :: "TransitionState list"

text \<open>
  \<open>transitionTo\<close> as the callback of the last render runs it; the argument \<open>now\<close> is
  the value of \<open>performance.now()\<close>. The guard and the new transition record read the
  closure's \<open>currentState\<close> and \<open>transition.isTransitioning\<close>; the ref is written at
  once; the new record is queued with \<open>setTransition\<close>.
\<close>

definition transitionTo_call :: "EntityState \<Rightarrow> real \<Rightarrow> PendingHook \<Rightarrow> PendingHook" where
  "transitionTo_call newState now h =
    (if newState = currentState (cells h) \<or> isTransitioning (transition (cells h)) then h
     else
       let d = getTransitionDuration (currentState (cells h)) newState
       in h\<lparr>cells := (cells h)\<lparr>transitionRef := Some \<lparr>startTime = now, duration = d\<rparr>\<rparr>,
            queued := queued h @
              [\<lparr>tr_from = currentState (cells h), tr_to = newState,
                progress = 0, isTransitioning = True\<rparr>]\<rparr>)"

text \<open>The next render: the queued values reach the \<open>transition\<close> cell, oldest first.\<close>

definition rerender :: "PendingHook \<Rightarrow> EngineState" where
  "rerender h = foldl (\<lambda>s v. s\<lparr>transition := v\<rparr>) (cells h) (queued h)"

text \<open>A hook that has just rendered: nothing is queued.\<close>

definition settled :: "EngineState \<Rightarrow> PendingHook" where
  "settled s = \<lparr>cells = s, queued = []\<rparr>"

text \<open>
  One call of \<open>transitionTo\<close> on a hook that has just rendered, followed by the render
  the call triggers.
\<close>

definition transitionTo :: "EntityState \<Rightarrow> real \<Rightarrow> EngineState \<Rightarrow> EngineState" where
  "transitionTo newState now s = rerender (transitionTo_call newState now (settled s))"

text \<open>The local \<open>rawProgress\<close> of \<open>animate\<close>.\<close>

definition rawProgress :: "TransitionRef \<Rightarrow> real \<Rightarrow> real" where
  "rawProgress r now = min ((now - startTime r) / duration r) 1"

text \<open>
  One run of the frame callback \<open>animate\<close> at time \<open>now\<close>. In the unfinished branch the
  callback asks for the next frame; that next run is the next application of \<open>animate\<close>.
\<close>

definition animate :: "real \<Rightarrow> EngineState \<Rightarrow> EngineState" where
  "animate now s =
    (case transitionRef s of
       None \<Rightarrow> s
     | Some r \<Rightarrow>
         let rawP = rawProgress r now;
             easedProgress = easeInOutCubic rawP
         in if rawP \<ge> 1
            then s\<lparr>currentState := tr_to (transition s),
                   transition := (transition s)\<lparr>progress := 1, isTransitioning := False\<rparr>,
                   transitionRef := None\<rparr>
            else s\<lparr>transition := (transition s)\<lparr>progress := easedProgress\<rparr>\<rparr>)"

text \<open>The frame callback run once at each of the times \<open>ts\<close>, in order.\<close>

fun animateAll :: "real list \<Rightarrow> EngineState \<Rightarrow> EngineState" where
  "animateAll [] s = s"
| "animateAll (now # ts) s = animateAll ts (animate now s)"

text \<open>\<open>getInterpolatedValue\<close>; \<open>stateValues\<close> is its local object literal.\<close>

fun stateValues :: "real \<Rightarrow> real \<Rightarrow> real \<Rightarrow> EntityState \<Rightarrow> real" where
  "stateValues restingValue thinkingValue actingValue resting = restingValue"
| "stateValues restingValue thinkingValue actingValue thinking = thinkingValue"
| "stateValues restingValue thinkingValue actingValue acting = actingValue"

definition getInterpolatedValue ::
  "real \<Rightarrow> real \<Rightarrow> real \<Rightarrow> EntityState \<Rightarrow> TransitionState \<Rightarrow> real" where
  "getInterpolatedValue restingValue thinkingValue actingValue cs tr =
    (if \<not> isTransitioning tr then stateValues restingValue thinkingValue actingValue cs
     else
       let fromValue = stateValues restingValue thinkingValue actingValue (tr_from tr);
           toValue = stateValues restingValue thinkingValue actingValue (tr_to tr)
       in fromValue + (toValue - fromValue) * progress tr)"

section \<open>Vectors, quaternions and matrices of the rendering library\<close>

text \<open>
  The components use the vector classes of three.js. The operations below are the
  library's methods that the two particle systems call, written out componentwise.
\<close>

datatype Vector3 = Vector3 (v_x: real) (v_y: real) (v_z: real)

datatype Quaternion = Quaternion (q_x: real) (q_y: real) (q_z: real) (q_w: real)

text \<open>The sixteen \<open>elements\<close> of a \<open>Matrix4\<close>, in the library's column-major order.\<close>

datatype Matrix4 = Matrix4 real real real real  real real real real
                           real real real real  real real real real

definition v_dot :: "Vector3 \<Rightarrow> Vector3 \<Rightarrow> real" where
  "v_dot a b = v_x a * v_x b + v_y a * v_y b + v_z a * v_z b"

definition v_length :: "Vector3 \<Rightarrow> real" where
  "v_length v = sqrt (v_x v * v_x v + v_y v * v_y v + v_z v * v_z v)"

text \<open>\<open>normalize()\<close> is \<open>divideScalar(length() || 1)\<close>: the zero vector stays zero.\<close>

definition v_normalize :: "Vector3 \<Rightarrow> Vector3" where
  "v_normalize v =
    (let l = v_length v; d = (if l = 0 then 1 else l)
     in Vector3 (v_x v * (1 / d)) (v_y v * (1 / d)) (v_z v * (1 / d)))"

definition q_length :: "Quaternion \<Rightarrow> real" where
  "q_length q = sqrt (q_x q * q_x q + q_y q * q_y q + q_z q * q_z q + q_w q * q_w q)"

definition q_normalize :: "Quaternion \<Rightarrow> Quaternion" where
  "q_normalize q =
    (let l = q_length q
     in if l = 0 then Quaternion 0 0 0 1
        else Quaternion (q_x q * (1 / l)) (q_y q * (1 / l)) (q_z q * (1 / l)) (q_w q * (1 / l)))"

text \<open>\<open>Number.EPSILON\<close>.\<close>

definition EPSILON :: real where
  "EPSILON = 1 / 2 ^ 52"

definition setFromUnitVectors :: "Vector3 \<Rightarrow> Vector3 \<Rightarrow> Quaternion" where
  "setFromUnitVectors vFrom vTo =
    (let r = v_dot vFrom vTo + 1
     in q_normalize
          (if r < EPSILON
           then (if \<bar>v_x vFrom\<bar> > \<bar>v_z vFrom\<bar>
                 then Quaternion (- v_y vFrom) (v_x vFrom) 0 0
                 else Quaternion 0 (- v_z vFrom) (v_y vFrom) 0)
           else Quaternion (v_y vFrom * v_z vTo - v_z vFrom * v_y vTo)
                           (v_z vFrom * v_x vTo - v_x vFrom * v_z vTo)
                           (v_x vFrom * v_y vTo - v_y vFrom * v_x vTo)
                           r))"

definition setFromAxisAngle :: "Vector3 \<Rightarrow> real \<Rightarrow> Quaternion" where
  "setFromAxisAngle a angle =
    (let halfAngle = angle / 2; s = sin halfAngle
     in Quaternion (v_x a * s) (v_y a * s) (v_z a * s) (cos halfAngle))"

text \<open>\<open>makeRotationFromQuaternion(q)\<close> is \<open>compose(zero, q, one)\<close>.\<close>

definition makeRotationFromQuaternion :: "Quaternion \<Rightarrow> Matrix4" where
  "makeRotationFromQuaternion q =
    (let x = q_x q; y = q_y q; z = q_z q; w = q_w q;
         x2 = x + x; y2 = y + y; z2 = z + z;
         xx = x * x2; xy = x * y2; xz = x * z2;
         yy = y * y2; yz = y * z2; zz = z * z2;
         wx = w * x2; wy = w * y2; wz = w * z2
     in Matrix4 (1 - (yy + zz)) (xy + wz) (xz - wy) 0
                (xy - wz) (1 - (xx + zz)) (yz + wx) 0
                (xz + wy) (yz - wx) (1 - (xx + yy)) 0
                0 0 0 1)"

fun applyMatrix4 :: "Matrix4 \<Rightarrow> Vector3 \<Rightarrow> Vector3" where
  "applyMatrix4 (Matrix4 e0 e1 e2 e3 e4 e5 e6 e7 e8 e9 e10 e11 e12 e13 e14 e15) (Vector3 x y z) =
    (let w = 1 / (e3 * x + e7 * y + e11 * z + e15)
     in Vector3 ((e0 * x + e4 * y + e8 * z + e12) * w)
                ((e1 * x + e5 * y + e9 * z + e13) * w)
                ((e2 * x + e6 * y + e10 * z + e14) * w))"

fun applyQuaternion :: "Quaternion \<Rightarrow> Vector3 \<Rightarrow> Vector3" where
  "applyQuaternion (Quaternion qx qy qz qw) (Vector3 vx vy vz) =
    (let tx = 2 * (qy * vz - qz * vy);
         ty = 2 * (qz * vx - qx * vz);
         tz = 2 * (qx * vy - qy * vx)
     in Vector3 (vx + qw * tx + qy * tz - qz * ty)
                (vy + qw * ty + qz * tx - qx * tz)
                (vz + qw * tz + qx * ty - qy * tx))"

text \<open>\<open>Math.atan2(y, x)\<close>: the angle of the point \<open>(x, y)\<close>, in \<open>(-\<pi>, \<pi>]\<close>.\<close>

definition atan2 :: "real \<Rightarrow> real \<Rightarrow> real" where
  "atan2 y x =
    (if x > 0 then arctan (y / x)
     else if x < 0 \<and> y \<ge> 0 then arctan (y / x) + pi
     else if x < 0 then arctan (y / x) - pi
     else if y > 0 then pi / 2
     else if y < 0 then - (pi / 2)
     else 0)"

section \<open>The cloud particle system (components/NebulaEntity.tsx)\<close>

definition CORE_PARTICLES :: nat where "CORE_PARTICLES = 400"
definition MID_PARTICLES :: nat where "MID_PARTICLES = 350"
definition EDGE_PARTICLES :: nat where "EDGE_PARTICLES = 250"
definition TOTAL_PARTICLES :: nat where
  "TOTAL_PARTICLES = CORE_PARTICLES + MID_PARTICLES + EDGE_PARTICLES"

text \<open>The state-based values that \<open>useFrame\<close> computes at the start of a frame.\<close>

record CloudValues =
  flowSpeed :: real
  contraction :: real
  intensity :: real
  spiralStrength :: real
  chaosAmount :: real

definition cloudValues :: "EntityState \<Rightarrow> TransitionState \<Rightarrow> CloudValues" where
  "cloudValues cs tr =
    \<lparr>flowSpeed = getInterpolatedValue 0.3 0.8 1.5 cs tr,
     contraction = getInterpolatedValue 1.0 0.7 0.5 cs tr,
     intensity = getInterpolatedValue 0.4 0.7 1.2 cs tr,
     spiralStrength = getInterpolatedValue 0.0 0.3 0.6 cs tr,
     chaosAmount = getInterpolatedValue 0.02 0.05 0.1 cs tr\<rparr>"

text \<open>
  The body of the per-particle loop, one definition for each commented block of the
  source, in the order of the source. \<open>layer\<close> is the number stored in the \<open>layer\<close>
  attribute (0 core, 1 mid, 2 edge).
\<close>

text \<open>The local \<open>dist\<close> of the loop body: the distance from the vertical axis.\<close>

definition horizontalDist :: "Vector3 \<Rightarrow> real" where
  "horizontalDist p = sqrt (v_x p * v_x p + v_z p * v_z p)"

text \<open>Flow field - circular motion around Y axis; spiral inward.\<close>

fun flowField :: "real \<Rightarrow> real \<Rightarrow> real \<Rightarrow> real \<Rightarrow> Vector3 \<Rightarrow> Vector3" where
  "flowField fSpeed sStrength delta layer (Vector3 x y z) =
    (let dist = sqrt (x * x + z * z)
     in if dist > 0.01
        then
          let angle = atan2 z x;
              rotSpeed = fSpeed * (0.5 + layer * 0.3) * delta;
              newAngle = angle + rotSpeed;
              spiralPull = sStrength * delta * (layer + 1);
              newDist = max 0.1 (dist - spiralPull * 0.1)
          in Vector3 (cos newAngle * newDist) y (sin newAngle * newDist)
        else Vector3 x y z)"

text \<open>Vertical oscillation; \<open>i\<close> is the index of the particle.\<close>

fun verticalOscillation :: "real \<Rightarrow> real \<Rightarrow> nat \<Rightarrow> Vector3 \<Rightarrow> Vector3" where
  "verticalOscillation fSpeed time i (Vector3 x y z) =
    Vector3 x (y + sin (time * 2 + real i * 0.1) * 0.002 * fSpeed) z"

text \<open>Gentle pull toward center.\<close>

fun pullTowardCenter :: "real \<Rightarrow> real \<Rightarrow> Vector3 \<Rightarrow> Vector3" where
  "pullTowardCenter fSpeed delta (Vector3 x y z) =
    (let toCenter = v_normalize (Vector3 (- x) (- y) (- z));
         pullStrength = 0.01 * fSpeed
     in Vector3 (x + v_x toCenter * pullStrength * delta)
                (y + v_y toCenter * pullStrength * delta)
                (z + v_z toCenter * pullStrength * delta))"

text \<open>Add chaos; \<open>(r1, r2, r3)\<close> are the three values \<open>Math.random()\<close> returns.\<close>

fun addChaos :: "real \<Rightarrow> real \<times> real \<times> real \<Rightarrow> Vector3 \<Rightarrow> Vector3" where
  "addChaos chaos (r1, r2, r3) (Vector3 x y z) =
    Vector3 (x + (r1 - 0.5) * chaos) (y + (r2 - 0.5) * chaos) (z + (r3 - 0.5) * chaos)"

definition maxDist :: "real \<Rightarrow> real" where
  "maxDist layer = (if layer = 0 then 0.8 else if layer = 1 then 1.5 else 2.5)"

text \<open>Soft boundary - push back if too far.\<close>

fun softBoundary :: "real \<Rightarrow> real \<Rightarrow> Vector3 \<Rightarrow> Vector3" where
  "softBoundary contr layer (Vector3 x y z) =
    (let currentDist = sqrt (x * x + y * y + z * z)
     in if currentDist > maxDist layer * contr
        then
          let scale = (maxDist layer * contr) / currentDist
          in Vector3 (x * (scale * 0.95)) (y * (scale * 0.95)) (z * (scale * 0.95))
        else Vector3 x y z)"

text \<open>The position before the soft boundary is applied.\<close>

definition beforeBoundary ::
  "real \<Rightarrow> real \<Rightarrow> EntityState \<Rightarrow> TransitionState \<Rightarrow> real \<Rightarrow> nat \<Rightarrow>
   real \<times> real \<times> real \<Rightarrow> Vector3 \<Rightarrow> Vector3" where
  "beforeBoundary time delta cs tr layer i rnd p =
    (let v = cloudValues cs tr
     in addChaos (chaosAmount v) rnd
          (pullTowardCenter (flowSpeed v) delta
            (verticalOscillation (flowSpeed v) time i
              (flowField (flowSpeed v) (spiralStrength v) delta layer p))))"

text \<open>One iteration of the loop: the position written back with \<open>setXYZ\<close>.\<close>

definition updateParticle ::
  "real \<Rightarrow> real \<Rightarrow> EntityState \<Rightarrow> TransitionState \<Rightarrow> real \<Rightarrow> nat \<Rightarrow>
   real \<times> real \<times> real \<Rightarrow> Vector3 \<Rightarrow> Vector3" where
  "updateParticle time delta cs tr layer i rnd p =
    softBoundary (contraction (cloudValues cs tr)) layer
      (beforeBoundary time delta cs tr layer i rnd p)"

text \<open>
  The loop of \<open>useFrame\<close> over the position attribute. \<open>rnd k\<close> is the value of the
  \<open>k\<close>-th call of \<open>Math.random()\<close> in the frame; particle \<open>i\<close> makes the calls
  \<open>3 i\<close>, \<open>3 i + 1\<close> and \<open>3 i + 2\<close>. Both attributes hold \<open>TOTAL_PARTICLES\<close> entries.
\<close>

definition nebulaCloudFrame ::
  "real \<Rightarrow> real \<Rightarrow> EntityState \<Rightarrow> TransitionState \<Rightarrow> (nat \<Rightarrow> real) \<Rightarrow>
   real list \<Rightarrow> Vector3 list \<Rightarrow> Vector3 list" where
  "nebulaCloudFrame time delta cs tr rnd layers ps =
    map (\<lambda>i. updateParticle time delta cs tr (layers ! i) i
                (rnd (3 * i), rnd (3 * i + 1), rnd (3 * i + 2)) (ps ! i))
        [0..<TOTAL_PARTICLES]"

section \<open>The ring particle system (components/OphanimEntity.tsx)\<close>

definition PARTICLES_PER_RING :: nat where "PARTICLES_PER_RING = 180"

record RingConfig =
  axis :: Vector3
  radius :: real
  speed :: real
  phase :: real

definition RING_CONFIGS :: "RingConfig list" where
  "RING_CONFIGS =
    [\<lparr>axis = Vector3 1 0 0, radius = 2.0, speed = 1.0, phase = 0\<rparr>,
     \<lparr>axis = Vector3 0 1 0, radius = 1.8, speed = - 0.8, phase = pi / 4\<rparr>,
     \<lparr>axis = Vector3 0 0 1, radius = 1.6, speed = 0.9, phase = pi / 2\<rparr>,
     \<lparr>axis = v_normalize (Vector3 1 1 0), radius = 1.4, speed = - 0.7, phase = pi * 0.75\<rparr>]"

text \<open>The \<open>basePositions\<close> that \<open>ParticleRing\<close> computes once for its ring.\<close>

definition ringBasePosition :: "RingConfig \<Rightarrow> nat \<Rightarrow> Vector3" where
  "ringBasePosition cfg i =
    (let up = Vector3 0 1 0;
         quaternion = setFromUnitVectors up (axis cfg);
         matrix = makeRotationFromQuaternion quaternion;
         angle = (real i / real PARTICLES_PER_RING) * pi * 2;
         pos = Vector3 (cos angle * radius cfg) 0 (sin angle * radius cfg)
     in applyMatrix4 matrix pos)"

definition ringBasePositions :: "RingConfig \<Rightarrow> Vector3 list" where
  "ringBasePositions cfg = map (ringBasePosition cfg) [0..<PARTICLES_PER_RING]"

text \<open>
  The rotation loop of \<open>useFrame\<close> over the position attribute, which holds
  \<open>PARTICLES_PER_RING\<close> entries.
\<close>

definition ringFrame ::
  "RingConfig \<Rightarrow> real \<Rightarrow> EntityState \<Rightarrow> TransitionState \<Rightarrow> Vector3 list \<Rightarrow> Vector3 list" where
  "ringFrame cfg delta cs tr ps =
    (let speedMultiplier = getInterpolatedValue 0.3 0.8 2.0 cs tr;
         quaternion = setFromAxisAngle (axis cfg) (delta * speed cfg * speedMultiplier)
     in map (\<lambda>i. applyQuaternion quaternion (ps ! i)) [0..<PARTICLES_PER_RING])"

text \<open>
  The distance of a point from the line through the origin with direction \<open>a\<close>: the
  length of what is left of the point after its component along \<open>a\<close> is removed.
\<close>

definition axisDistance :: "Vector3 \<Rightarrow> Vector3 \<Rightarrow> real" where
  "axisDistance a p =
    (let k = v_dot p a / v_dot a a
     in v_length (Vector3 (v_x p - k * v_x a) (v_y p - k * v_y a) (v_z p - k * v_z a)))"

section \<open>Properties of the state machine\<close>

text \<open>
  A single call on a hook that has just rendered, with its render: the guard sees the
  cells as they are.
\<close>

lemma transitionTo_rendered:
  "transitionTo newState now s =
    (if newState = currentState s \<or> isTransitioning (transition s) then s
     else
       let d = getTransitionDuration (currentState s) newState
       in s\<lparr>transitionRef := Some \<lparr>startTime = now, duration = d\<rparr>,
            transition := \<lparr>tr_from = currentState s, tr_to = newState,
                           progress = 0, isTransitioning = True\<rparr>\<rparr>)"
  by (simp add: transitionTo_def transitionTo_call_def rerender_def settled_def Let_def)

lemma getTransitionDuration_table:
  "getTransitionDuration resting thinking = 1500"
  "getTransitionDuration thinking acting = 600"
  "getTransitionDuration acting resting = 2000"
  "getTransitionDuration thinking resting = 1200"
  "getTransitionDuration resting acting = 800"
  "getTransitionDuration acting thinking = 1000"
  "getTransitionDuration resting resting = 1000"
  "getTransitionDuration thinking thinking = 1000"
  "getTransitionDuration acting acting = 1000"
  by (simp_all add: getTransitionDuration_def TRANSITION_DURATIONS_def)

lemma getTransitionDuration_pos: "0 < getTransitionDuration f t"
  by (cases f; cases t) (simp_all add: getTransitionDuration_table)

text \<open>
  Claim C9. \<open>getTransitionDuration\<close> is a total function: it returns the configured
  duration for each of the six listed pairs, and 1000 for every pair that has no entry
  in the table. No pair of equal states has an entry, so every such pair gets 1000;
  every pair of distinct states has an entry.
\<close>

theorem getTransitionDuration_total:
  "getTransitionDuration resting thinking = 1500 \<and>
   getTransitionDuration thinking acting = 600 \<and>
   getTransitionDuration acting resting = 2000 \<and>
   getTransitionDuration thinking resting = 1200 \<and>
   getTransitionDuration resting acting = 800 \<and>
   getTransitionDuration acting thinking = 1000 \<and>
   (\<forall>f t. map_of TRANSITION_DURATIONS (stateName f @ ''-'' @ stateName t) = None
            \<longrightarrow> getTransitionDuration f t = 1000) \<and>
   (\<forall>s. map_of TRANSITION_DURATIONS (stateName s @ ''-'' @ stateName s) = None) \<and>
   (\<forall>s. getTransitionDuration s s = 1000) \<and>
   (\<forall>f t. f \<noteq> t \<longrightarrow>
      map_of TRANSITION_DURATIONS (stateName f @ ''-'' @ stateName t)
        = Some (getTransitionDuration f t))"
proof (intro conjI allI impI)
  fix f t assume "map_of TRANSITION_DURATIONS (stateName f @ ''-'' @ stateName t) = None"
  then show "getTransitionDuration f t = 1000" by (simp add: getTransitionDuration_def)
next
  fix s show "map_of TRANSITION_DURATIONS (stateName s @ ''-'' @ stateName s) = None"
    by (cases s) (simp_all add: TRANSITION_DURATIONS_def)
next
  fix s show "getTransitionDuration s s = 1000"
    by (cases s) (simp_all add: getTransitionDuration_table)
next
  fix f t :: EntityState assume "f \<noteq> t"
  then show "map_of TRANSITION_DURATIONS (stateName f @ ''-'' @ stateName t)
        = Some (getTransitionDuration f t)"
    by (cases f; cases t) (simp_all add: getTransitionDuration_def TRANSITION_DURATIONS_def)
qed (simp_all add: getTransitionDuration_table)

theorem getTransitionDuration_total_witness:
  "map_of TRANSITION_DURATIONS (stateName acting @ ''-'' @ stateName acting) = None \<and>
   getTransitionDuration acting acting = 1000 \<and>
   resting \<noteq> acting \<and>
   map_of TRANSITION_DURATIONS (stateName resting @ ''-'' @ stateName acting) = Some 800"
  using getTransitionDuration_total
  by (simp add: TRANSITION_DURATIONS_def)

lemma getInterpolatedValue_idle:
  "\<not> isTransitioning tr \<Longrightarrow> getInterpolatedValue a b c cs tr = stateValues a b c cs"
  by (simp add: getInterpolatedValue_def)

lemma getInterpolatedValue_active:
  "isTransitioning tr \<Longrightarrow>
   getInterpolatedValue a b c cs tr =
     stateValues a b c (tr_from tr) + (stateValues a b c (tr_to tr) - stateValues a b c (tr_from tr)) * progress tr"
  by (simp add: getInterpolatedValue_def Let_def)

text \<open>
  Claim C2. \<open>getInterpolatedValue\<close> is a function of its five arguments. When no
  transition is active it returns the value of the current state (\<open>thinkingValue\<close> when
  idle in \<open>thinking\<close>); when a transition is active it returns
  \<open>value(from) + (value(to) - value(from)) * progress\<close>, for all three values and every
  progress in \<open>[0, 1]\<close>.
\<close>

theorem getInterpolatedValue_spec:
  "(\<not> isTransitioning tr \<longrightarrow>
      getInterpolatedValue a b c cs tr = stateValues a b c cs) \<and>
   (\<not> isTransitioning tr \<and> cs = thinking \<longrightarrow> getInterpolatedValue a b c cs tr = b) \<and>
   (isTransitioning tr \<and> 0 \<le> progress tr \<and> progress tr \<le> 1 \<longrightarrow>
      getInterpolatedValue a b c cs tr =
        stateValues a b c (tr_from tr)
          + (stateValues a b c (tr_to tr) - stateValues a b c (tr_from tr)) * progress tr) \<and>
   (isTransitioning tr \<and> tr_from tr = resting \<and> tr_to tr = thinking \<longrightarrow>
      getInterpolatedValue a b c cs tr = a + (b - a) * progress tr)"
  by (simp add: getInterpolatedValue_idle getInterpolatedValue_active)

theorem getInterpolatedValue_spec_witness:
  "getInterpolatedValue 0.3 0.8 1.5 thinking
     \<lparr>tr_from = resting, tr_to = thinking, progress = 1, isTransitioning = False\<rparr> = 0.8 \<and>
   getInterpolatedValue 0.3 0.8 1.5 acting
     \<lparr>tr_from = resting, tr_to = thinking, progress = 1/2, isTransitioning = True\<rparr>
     = 0.3 + (0.8 - 0.3) * (1/2)"
  using getInterpolatedValue_spec [where tr = "\<lparr>tr_from = resting, tr_to = thinking, progress = 1, isTransitioning = False\<rparr>" and a = "0.3" and b = "0.8" and c = "1.5" and cs = thinking]
        getInterpolatedValue_spec [where tr = "\<lparr>tr_from = resting, tr_to = thinking, progress = 1/2, isTransitioning = True\<rparr>" and a = "0.3" and b = "0.8" and c = "1.5" and cs = acting]
  by simp

text \<open>
  Claim C10. While a transition is active the result of \<open>getInterpolatedValue\<close> does
  not depend on the current state: two calls that differ only in that argument return
  the same value, which is determined by the three values and by the transition's
  \<open>from\<close>, \<open>to\<close> and \<open>progress\<close>.
\<close>

theorem getInterpolatedValue_ignores_currentState:
  "isTransitioning tr \<Longrightarrow>
   getInterpolatedValue a b c s1 tr = getInterpolatedValue a b c s2 tr \<and>
   getInterpolatedValue a b c s1 tr =
     stateValues a b c (tr_from tr)
       + (stateValues a b c (tr_to tr) - stateValues a b c (tr_from tr)) * progress tr"
  by (simp add: getInterpolatedValue_active)

theorem getInterpolatedValue_ignores_currentState_witness:
  "isTransitioning \<lparr>tr_from = thinking, tr_to = acting, progress = 1/4, isTransitioning = True\<rparr> \<and>
   getInterpolatedValue 1 2 4 resting
     \<lparr>tr_from = thinking, tr_to = acting, progress = 1/4, isTransitioning = True\<rparr>
   = getInterpolatedValue 1 2 4 acting
     \<lparr>tr_from = thinking, tr_to = acting, progress = 1/4, isTransitioning = True\<rparr> \<and>
   getInterpolatedValue 1 2 4 resting
     \<lparr>tr_from = thinking, tr_to = acting, progress = 1/4, isTransitioning = True\<rparr> = 5/2"
  using getInterpolatedValue_ignores_currentState
    [where tr = "\<lparr>tr_from = thinking, tr_to = acting, progress = 1/4, isTransitioning = True\<rparr>"
       and a = 1 and b = 2 and c = 4 and ?s1.0 = resting and ?s2.0 = acting]
  by simp

lemma transitionTo_call_guard:
  "newState = currentState (cells h) \<or> isTransitioning (transition (cells h)) \<Longrightarrow>
   transitionTo_call newState now h = h"
  by (simp add: transitionTo_call_def)

text \<open>
  Calls separated by a render are guarded as intended: a call for the state the last
  render shows as current, and a call made after the render that shows the active
  transition, change nothing.
\<close>

lemma transitionTo_rendered_noop:
  "(currentState s = st \<longrightarrow> transitionTo st now s = s) \<and>
   (isTransitioning (transition s) \<longrightarrow> transitionTo target now s = s)"
  by (simp add: transitionTo_rendered)

lemma transitionTo_after_render_noop:
  "transitionTo_call acting 20 (settled (transitionTo thinking 10 useEntityState_init))
   = settled (transitionTo thinking 10 useEntityState_init)"
  by (rule transitionTo_call_guard)
     (simp add: settled_def transitionTo_rendered useEntityState_init_def)

text \<open>
  Claim C3 says that \<open>transitionTo\<close> while a transition is already active changes
  nothing. Between two renders the code does not behave so. From the initial state,
  \<open>transitionTo thinking\<close> at time 10 starts a transition: the ref holds start time 10
  and duration 1500, and the record resting to thinking is queued. A second call,
  \<open>transitionTo acting\<close> at time 20, made through the same callback before the next
  render, still sees \<open>isTransitioning\<close> false in its closure: it overwrites the ref with
  start time 20 and duration 800 and queues a second record, so the next render shows
  a transition from resting to acting.
\<close>

theorem transitionTo_stale_closure:
  "transitionRef (cells (transitionTo_call thinking 10 (settled useEntityState_init)))
     = Some \<lparr>startTime = 10, duration = 1500\<rparr> \<and>
   transition (rerender (transitionTo_call thinking 10 (settled useEntityState_init)))
     = \<lparr>tr_from = resting, tr_to = thinking, progress = 0, isTransitioning = True\<rparr> \<and>
   transitionTo_call acting 20 (transitionTo_call thinking 10 (settled useEntityState_init))
     \<noteq> transitionTo_call thinking 10 (settled useEntityState_init) \<and>
   transitionRef (cells (transitionTo_call acting 20
       (transitionTo_call thinking 10 (settled useEntityState_init))))
     = Some \<lparr>startTime = 20, duration = 800\<rparr> \<and>
   transition (rerender (transitionTo_call acting 20
       (transitionTo_call thinking 10 (settled useEntityState_init))))
     = \<lparr>tr_from = resting, tr_to = acting, progress = 0, isTransitioning = True\<rparr>"
  by (simp add: transitionTo_call_def settled_def rerender_def useEntityState_init_def
        getTransitionDuration_table Let_def)

subsection \<open>Easing\<close>

lemma ease_low: "t < 1/2 \<Longrightarrow> easeInOutCubic t = 4 * t ^ 3"
  by (simp add: easeInOutCubic_def power3_eq_cube)

lemma ease_high: "1/2 \<le> t \<Longrightarrow> easeInOutCubic t = 1 - (2 - 2 * t) ^ 3 / 2"
  by (simp add: easeInOutCubic_def)

lemma ease_low_range:
  assumes "0 \<le> t" "t < 1/2"
  shows "0 \<le> easeInOutCubic t \<and> easeInOutCubic t \<le> 1/2"
proof -
  have "t ^ 3 \<le> (1/2) ^ 3" using assms by (intro power_mono) simp_all
  moreover have "0 \<le> t ^ 3" using assms by simp
  ultimately show ?thesis using assms by (simp add: ease_low power3_eq_cube)
qed

lemma ease_high_range:
  assumes "1/2 \<le> t" "t \<le> 1"
  shows "1/2 \<le> easeInOutCubic t \<and> easeInOutCubic t \<le> 1"
proof -
  have "(2 - 2 * t) ^ 3 \<le> 1 ^ 3" using assms by (intro power_mono) simp_all
  moreover have "0 \<le> (2 - 2 * t) ^ 3" using assms by simp
  ultimately show ?thesis using assms by (simp add: ease_high)
qed

lemma ease_range:
  assumes "0 \<le> t" "t \<le> 1"
  shows "0 \<le> easeInOutCubic t \<and> easeInOutCubic t \<le> 1"
proof (cases "t < 1/2")
  case True
  then show ?thesis using ease_low_range [OF assms(1)] by simp
next
  case False
  then show ?thesis using ease_high_range [OF _ assms(2)] by simp
qed

lemma ease_mono:
  assumes "0 \<le> s" "s \<le> t" "t \<le> 1"
  shows "easeInOutCubic s \<le> easeInOutCubic t"
proof -
  consider (low) "t < 1/2" | (mixed) "s < 1/2" "1/2 \<le> t" | (high) "1/2 \<le> s"
    by linarith
  then show ?thesis
  proof cases
    case low
    then have "s < 1/2" using assms by simp
    moreover have "s ^ 3 \<le> t ^ 3" using assms by (intro power_mono) simp_all
    ultimately show ?thesis using low by (simp add: ease_low)
  next
    case mixed
    have "easeInOutCubic s \<le> 1/2" using ease_low_range [OF assms(1) mixed(1)] by simp
    moreover have "1/2 \<le> easeInOutCubic t" using ease_high_range [OF mixed(2) assms(3)] by simp
    ultimately show ?thesis by linarith
  next
    case high
    then have ht: "1/2 \<le> t" using assms by simp
    have "(2 - 2 * t) ^ 3 \<le> (2 - 2 * s) ^ 3" using assms by (intro power_mono) simp_all
    then show ?thesis using high ht by (simp add: ease_high)
  qed
qed

text \<open>
  Claim C4. \<open>easeInOutCubic t\<close> is \<open>4 t\<^sup>3\<close> below one half and
  \<open>1 - (-2 t + 2)\<^sup>3 / 2\<close> otherwise; it maps 0 to 0, 1 to 1 and one half to one half,
  and on \<open>[0, 1]\<close> it stays within \<open>[0, 1]\<close> and is monotonically non-decreasing.
\<close>

theorem easeInOutCubic_spec:
  "(\<forall>t. t < 1/2 \<longrightarrow> easeInOutCubic t = 4 * t ^ 3) \<and>
   (\<forall>t. \<not> t < 1/2 \<longrightarrow> easeInOutCubic t = 1 - (- 2 * t + 2) ^ 3 / 2) \<and>
   easeInOutCubic 0 = 0 \<and> easeInOutCubic 1 = 1 \<and> easeInOutCubic (1/2) = 1/2 \<and>
   (\<forall>t. 0 \<le> t \<and> t \<le> 1 \<longrightarrow> 0 \<le> easeInOutCubic t \<and> easeInOutCubic t \<le> 1) \<and>
   (\<forall>s t. 0 \<le> s \<and> s \<le> t \<and> t \<le> 1 \<longrightarrow> easeInOutCubic s \<le> easeInOutCubic t)"
proof (intro conjI allI impI)
  fix t :: real assume "t < 1/2"
  then show "easeInOutCubic t = 4 * t ^ 3" by (rule ease_low)
next
  fix t :: real assume "\<not> t < 1/2"
  then show "easeInOutCubic t = 1 - (- 2 * t + 2) ^ 3 / 2" by (simp add: easeInOutCubic_def)
next
  show "easeInOutCubic 0 = 0" by (simp add: easeInOutCubic_def)
  show "easeInOutCubic 1 = 1" by (simp add: easeInOutCubic_def)
  show "easeInOutCubic (1/2) = 1/2" by (simp add: easeInOutCubic_def)
next
  fix t :: real assume "0 \<le> t \<and> t \<le> 1"
  then show "0 \<le> easeInOutCubic t" "easeInOutCubic t \<le> 1" using ease_range by simp_all
next
  fix s t :: real assume "0 \<le> s \<and> s \<le> t \<and> t \<le> 1"
  then show "easeInOutCubic s \<le> easeInOutCubic t" using ease_mono by simp
qed

theorem easeInOutCubic_spec_witness:
  "easeInOutCubic (1/4) = 1/16 \<and> easeInOutCubic (3/4) = 15/16 \<and>
   (0::real) \<le> 1/4 \<and> (1/4::real) \<le> 3/4 \<and> (3/4::real) \<le> 1 \<and>
   easeInOutCubic (1/4) \<le> easeInOutCubic (3/4) \<and>
   0 \<le> easeInOutCubic (3/4) \<and> easeInOutCubic (3/4) \<le> 1"
proof -
  have lo: "(1/4::real) < 1/2 \<longrightarrow> easeInOutCubic (1/4) = 4 * (1/4) ^ 3"
    using easeInOutCubic_spec by blast
  have hi: "\<not> (3/4::real) < 1/2 \<longrightarrow> easeInOutCubic (3/4) = 1 - (- 2 * (3/4) + 2) ^ 3 / 2"
    using easeInOutCubic_spec by blast
  have mono: "(0::real) \<le> 1/4 \<and> (1/4::real) \<le> 3/4 \<and> (3/4::real) \<le> 1
      \<longrightarrow> easeInOutCubic (1/4) \<le> easeInOutCubic (3/4)"
    using easeInOutCubic_spec by blast
  have a: "easeInOutCubic (1/4) = 1/16" using lo by (simp add: power3_eq_cube)
  have b: "easeInOutCubic (3/4) = 15/16" using hi by (simp add: power3_eq_cube)
  have c: "easeInOutCubic (1/4) \<le> easeInOutCubic (3/4)" using mono by simp
  show ?thesis using c by (simp add: a b)
qed

subsection \<open>Running a transition\<close>

lemma transitionTo_starts:
  assumes "currentState s = f" "\<not> isTransitioning (transition s)" "f \<noteq> t"
  shows "transitionTo t t0 s =
    s\<lparr>transitionRef := Some \<lparr>startTime = t0, duration = getTransitionDuration f t\<rparr>,
      transition := \<lparr>tr_from = f, tr_to = t, progress = 0, isTransitioning = True\<rparr>\<rparr>"
  using assms by (auto simp add: transitionTo_rendered Let_def)

lemma animate_before:
  assumes "transitionRef s = Some r" "0 < duration r" "now - startTime r < duration r"
  shows "animate now s =
    s\<lparr>transition := (transition s)\<lparr>progress := easeInOutCubic ((now - startTime r) / duration r)\<rparr>\<rparr>"
proof -
  have "(now - startTime r) / duration r < 1" using assms by simp
  then have "rawProgress r now = (now - startTime r) / duration r" "\<not> rawProgress r now \<ge> 1"
    by (simp_all add: rawProgress_def)
  then show ?thesis using assms(1) by (simp add: animate_def Let_def)
qed

lemma animate_after:
  assumes "transitionRef s = Some r" "0 < duration r" "duration r \<le> now - startTime r"
  shows "animate now s =
    s\<lparr>currentState := tr_to (transition s),
      transition := (transition s)\<lparr>progress := 1, isTransitioning := False\<rparr>,
      transitionRef := None\<rparr>"
proof -
  have "1 \<le> (now - startTime r) / duration r" using assms by simp
  then have "rawProgress r now \<ge> 1" by (simp add: rawProgress_def)
  then show ?thesis using assms(1) by (simp add: animate_def Let_def)
qed

lemma animateAll_before:
  assumes "0 < duration r" "\<forall>u \<in> set ts. u - startTime r < duration r"
    and "transitionRef s = Some r"
  shows "transitionRef (animateAll ts s) = Some r \<and>
         currentState (animateAll ts s) = currentState s \<and>
         tr_from (transition (animateAll ts s)) = tr_from (transition s) \<and>
         tr_to (transition (animateAll ts s)) = tr_to (transition s) \<and>
         isTransitioning (transition (animateAll ts s)) = isTransitioning (transition s)"
  using assms(2,3)
proof (induction ts arbitrary: s)
  case Nil
  then show ?case by simp
next
  case (Cons u ts)
  have step: "animate u s =
      s\<lparr>transition := (transition s)\<lparr>progress := easeInOutCubic ((u - startTime r) / duration r)\<rparr>\<rparr>"
    using animate_before [OF Cons.prems(2) assms(1)] Cons.prems(1) by simp
  have "transitionRef (animate u s) = Some r" using step Cons.prems(2) by simp
  moreover have "\<forall>u \<in> set ts. u - startTime r < duration r" using Cons.prems(1) by simp
  ultimately show ?case using Cons.IH [of "animate u s"] step by simp
qed


lemma transition_general:
  fixes s :: EngineState and f t :: EntityState and t0 :: real
  assumes idle: "currentState s = f" "\<not> isTransitioning (transition s)" and ne: "f \<noteq> t"
  defines "d \<equiv> getTransitionDuration f t"
  defines "s1 \<equiv> transitionTo t t0 s"
  shows "transition s1 = \<lparr>tr_from = f, tr_to = t, progress = 0, isTransitioning = True\<rparr>"
    and "currentState s1 = f"
    and "transitionRef s1 = Some \<lparr>startTime = t0, duration = d\<rparr>"
    and "\<forall>u \<in> set ts. u - t0 < d \<Longrightarrow>
           currentState (animateAll ts s1) = f \<and> isTransitioning (transition (animateAll ts s1))"
    and "\<forall>u \<in> set ts. u - t0 < d \<Longrightarrow> now - t0 < d \<Longrightarrow>
           progress (transition (animate now (animateAll ts s1))) = easeInOutCubic ((now - t0) / d)"
    and "\<forall>u \<in> set ts. u - t0 < d \<Longrightarrow> d \<le> now - t0 \<Longrightarrow>
           currentState (animate now (animateAll ts s1)) = t \<and>
           \<not> isTransitioning (transition (animate now (animateAll ts s1))) \<and>
           progress (transition (animate now (animateAll ts s1))) = 1 \<and>
           transitionRef (animate now (animateAll ts s1)) = None"
proof -
  let ?r = "\<lparr>startTime = t0, duration = d\<rparr>"
  have s1: "s1 = s\<lparr>transitionRef := Some ?r,
      transition := \<lparr>tr_from = f, tr_to = t, progress = 0, isTransitioning = True\<rparr>\<rparr>"
    unfolding s1_def d_def by (rule transitionTo_starts [OF idle ne])
  have dpos: "0 < duration ?r" by (simp add: d_def getTransitionDuration_pos)
  show a: "transition s1 = \<lparr>tr_from = f, tr_to = t, progress = 0, isTransitioning = True\<rparr>"
    by (simp add: s1)
  show b: "currentState s1 = f" by (simp add: s1 idle)
  show c: "transitionRef s1 = Some ?r" by (simp add: s1)
  {
    assume ts: "\<forall>u \<in> set ts. u - t0 < d"
    then have ts': "\<forall>u \<in> set ts. u - startTime ?r < duration ?r" by simp
    note inv = animateAll_before [OF dpos ts' c]
    show "currentState (animateAll ts s1) = f \<and> isTransitioning (transition (animateAll ts s1))"
      using inv a b by simp
    {
      assume "now - t0 < d"
      then have "now - startTime ?r < duration ?r" by simp
      from animate_before [OF conjunct1 [OF inv] dpos this]
      show "progress (transition (animate now (animateAll ts s1))) = easeInOutCubic ((now - t0) / d)"
        by simp
    }
    {
      assume "d \<le> now - t0"
      then have "duration ?r \<le> now - startTime ?r" by simp
      from animate_after [OF conjunct1 [OF inv] dpos this]
      show "currentState (animate now (animateAll ts s1)) = t \<and>
           \<not> isTransitioning (transition (animate now (animateAll ts s1))) \<and>
           progress (transition (animate now (animateAll ts s1))) = 1 \<and>
           transitionRef (animate now (animateAll ts s1)) = None"
        using inv a by simp
    }
  }
qed

lemma transition_scenario:
  fixes t0 :: real
  defines "s1 \<equiv> transitionTo thinking t0 useEntityState_init"
  defines "s2 \<equiv> animate (t0 + 750) s1"
  defines "s3 \<equiv> animate (t0 + 1500) s2"
  shows "transitionRef s1 = Some \<lparr>startTime = t0, duration = 1500\<rparr>"
    and "rawProgress \<lparr>startTime = t0, duration = 1500\<rparr> (t0 + 750) = 1/2"
    and "progress (transition s2) = 1/2"
    and "isTransitioning (transition s2)"
    and "currentState s2 = resting"
    and "currentState s3 = thinking"
    and "\<not> isTransitioning (transition s3)"
proof -
  have init: "currentState useEntityState_init = resting"
    "\<not> isTransitioning (transition useEntityState_init)" "resting \<noteq> thinking"
    by (simp_all add: useEntityState_init_def)
  note g = transition_general [OF init, where ?t0.0 = t0, unfolded getTransitionDuration_table]
  show "transitionRef s1 = Some \<lparr>startTime = t0, duration = 1500\<rparr>"
    unfolding s1_def by (rule g(3))
  show "rawProgress \<lparr>startTime = t0, duration = 1500\<rparr> (t0 + 750) = 1/2"
    by (simp add: rawProgress_def)
  have e: "easeInOutCubic (1/2) = 1/2" by (simp add: easeInOutCubic_def)
  have "progress (transition (animate (t0 + 750) (animateAll [] s1))) = easeInOutCubic ((t0 + 750 - t0) / 1500)"
    unfolding s1_def by (rule g(5)) simp_all
  then show "progress (transition s2) = 1/2" by (simp add: s2_def e)
  have "currentState (animateAll [t0 + 750] s1) = resting \<and>
        isTransitioning (transition (animateAll [t0 + 750] s1))"
    unfolding s1_def by (rule g(4)) simp
  then show "isTransitioning (transition s2)" "currentState s2 = resting"
    by (simp_all add: s2_def)
  have "currentState (animate (t0 + 1500) (animateAll [t0 + 750] s1)) = thinking \<and>
        \<not> isTransitioning (transition (animate (t0 + 1500) (animateAll [t0 + 750] s1))) \<and>
        progress (transition (animate (t0 + 1500) (animateAll [t0 + 750] s1))) = 1 \<and>
        transitionRef (animate (t0 + 1500) (animateAll [t0 + 750] s1)) = None"
    unfolding s1_def by (rule g(6)) simp_all
  then show "currentState s3 = thinking" "\<not> isTransitioning (transition s3)"
    by (simp_all add: s3_def s2_def)
qed

text \<open>
  Claim C1. For distinct states \<open>f\<close> and \<open>t\<close>, with the engine idle at \<open>f\<close>,
  \<open>transitionTo t\<close> at time \<open>t0\<close> creates the active transition from \<open>f\<close> to \<open>t\<close>
  with progress 0 and records the duration of the pair. As long as every frame runs
  at an elapsed time below the duration, the current state stays \<open>f\<close> and the
  transition stays active, with the eased elapsed fraction as progress; the first
  frame at an elapsed time that reaches the duration sets the current state to \<open>t\<close>,
  clears \<open>isTransitioning\<close> and pins the progress to 1. From the initial state
  (idle, resting), \<open>transitionTo thinking\<close> uses 1500 ms; a frame after 750 ms has raw
  progress one half with the current state still resting, and a frame after 1500 ms
  makes the current state thinking with no transition active.
\<close>

theorem transition_runs_to_completion:
  "(currentState s = f \<and> \<not> isTransitioning (transition s) \<and> f \<noteq> t \<longrightarrow>
     transition (transitionTo t t0 s)
       = \<lparr>tr_from = f, tr_to = t, progress = 0, isTransitioning = True\<rparr> \<and>
     currentState (transitionTo t t0 s) = f \<and>
     transitionRef (transitionTo t t0 s)
       = Some \<lparr>startTime = t0, duration = getTransitionDuration f t\<rparr> \<and>
     (\<forall>ts. (\<forall>u \<in> set ts. u - t0 < getTransitionDuration f t) \<longrightarrow>
        currentState (animateAll ts (transitionTo t t0 s)) = f \<and>
        isTransitioning (transition (animateAll ts (transitionTo t t0 s))) \<and>
        (\<forall>now. now - t0 < getTransitionDuration f t \<longrightarrow>
           progress (transition (animate now (animateAll ts (transitionTo t t0 s))))
             = easeInOutCubic ((now - t0) / getTransitionDuration f t)) \<and>
        (\<forall>now. getTransitionDuration f t \<le> now - t0 \<longrightarrow>
           currentState (animate now (animateAll ts (transitionTo t t0 s))) = t \<and>
           \<not> isTransitioning (transition (animate now (animateAll ts (transitionTo t t0 s)))) \<and>
           progress (transition (animate now (animateAll ts (transitionTo t t0 s)))) = 1))) \<and>
   transitionRef (transitionTo thinking t0 useEntityState_init)
     = Some \<lparr>startTime = t0, duration = 1500\<rparr> \<and>
   rawProgress \<lparr>startTime = t0, duration = 1500\<rparr> (t0 + 750) = 1/2 \<and>
   progress (transition (animate (t0 + 750) (transitionTo thinking t0 useEntityState_init))) = 1/2 \<and>
   isTransitioning (transition (animate (t0 + 750) (transitionTo thinking t0 useEntityState_init))) \<and>
   currentState (animate (t0 + 750) (transitionTo thinking t0 useEntityState_init)) = resting \<and>
   currentState (animate (t0 + 1500) (animate (t0 + 750)
       (transitionTo thinking t0 useEntityState_init))) = thinking \<and>
   \<not> isTransitioning (transition (animate (t0 + 1500) (animate (t0 + 750)
       (transitionTo thinking t0 useEntityState_init))))"
proof (intro conjI impI allI)
  assume h: "currentState s = f \<and> \<not> isTransitioning (transition s) \<and> f \<noteq> t"
  then have idle: "currentState s = f" "\<not> isTransitioning (transition s)" "f \<noteq> t" by simp_all
  note g = transition_general [OF idle, where ?t0.0 = t0]
  show "transition (transitionTo t t0 s)
       = \<lparr>tr_from = f, tr_to = t, progress = 0, isTransitioning = True\<rparr>" by (rule g(1))
  show "currentState (transitionTo t t0 s) = f" by (rule g(2))
  show "transitionRef (transitionTo t t0 s)
       = Some \<lparr>startTime = t0, duration = getTransitionDuration f t\<rparr>" by (rule g(3))
  fix ts assume ts: "\<forall>u \<in> set ts. u - t0 < getTransitionDuration f t"
  show "currentState (animateAll ts (transitionTo t t0 s)) = f"
    "isTransitioning (transition (animateAll ts (transitionTo t t0 s)))"
    using g(4) [OF ts] by simp_all
  {
    fix now assume "now - t0 < getTransitionDuration f t"
    then show "progress (transition (animate now (animateAll ts (transitionTo t t0 s))))
             = easeInOutCubic ((now - t0) / getTransitionDuration f t)"
      by (rule g(5) [OF ts])
  }
  {
    fix now assume "getTransitionDuration f t \<le> now - t0"
    from g(6) [OF ts this]
    show "currentState (animate now (animateAll ts (transitionTo t t0 s))) = t"
      "\<not> isTransitioning (transition (animate now (animateAll ts (transitionTo t t0 s))))"
      "progress (transition (animate now (animateAll ts (transitionTo t t0 s)))) = 1"
      by simp_all
  }
qed (simp_all add: transition_scenario)

theorem transition_runs_to_completion_witness:
  "currentState useEntityState_init = resting \<and>
   \<not> isTransitioning (transition useEntityState_init) \<and> resting \<noteq> acting \<and>
   getTransitionDuration resting acting = 800 \<and>
   (200::real) - 100 < 800 \<and> (500::real) - 100 < 800 \<and>
   currentState (animateAll [200, 500] (transitionTo acting 100 useEntityState_init)) = resting \<and>
   progress (transition (animate 300 (animateAll [200, 500]
      (transitionTo acting 100 useEntityState_init)))) = easeInOutCubic (1/4) \<and>
   currentState (animate 900 (animateAll [200, 500]
      (transitionTo acting 100 useEntityState_init))) = acting \<and>
   \<not> isTransitioning (transition (animate 900 (animateAll [200, 500]
      (transitionTo acting 100 useEntityState_init))))"
proof -
  have h: "currentState useEntityState_init = resting \<and>
     \<not> isTransitioning (transition useEntityState_init) \<and> resting \<noteq> acting"
    by (simp add: useEntityState_init_def)
  have ts: "\<forall>u \<in> set [200, 500 :: real]. u - 100 < getTransitionDuration resting acting"
    by (simp add: getTransitionDuration_table)
  have lt: "(300::real) - 100 < getTransitionDuration resting acting"
    by (simp add: getTransitionDuration_table)
  have ge: "getTransitionDuration resting acting \<le> (900::real) - 100"
    by (simp add: getTransitionDuration_table)
  note g = transition_runs_to_completion
    [where s = useEntityState_init and f = resting and t = acting and ?t0.0 = 100,
     THEN conjunct1, THEN mp, OF h]
  note k = g [THEN conjunct2, THEN conjunct2, THEN conjunct2, THEN spec, THEN mp, OF ts]
  note a = k [THEN conjunct1]
  note b = k [THEN conjunct2, THEN conjunct2, THEN conjunct1, THEN spec, THEN mp, OF lt]
  note c = k [THEN conjunct2, THEN conjunct2, THEN conjunct2, THEN spec, THEN mp, OF ge]
  have b': "progress (transition (animate 300 (animateAll [200, 500]
      (transitionTo acting 100 useEntityState_init)))) = easeInOutCubic (1/4)"
    using b by (simp only: getTransitionDuration_table) simp
  show ?thesis
    using h a b' c by (simp only: getTransitionDuration_table) simp
qed

subsection \<open>The progress of a snapshot stays in the unit interval\<close>

text \<open>
  The progress starts at 1, \<open>transitionTo\<close> sets it to 0, and a frame that runs no
  earlier than the start of the transition sets it to an eased value. The properties
  of the particle systems below are stated for such snapshots.
\<close>

lemma transitionTo_progress_unit:
  assumes "0 \<le> progress (transition s) \<and> progress (transition s) \<le> 1"
  shows "0 \<le> progress (transition (transitionTo newState now s)) \<and>
         progress (transition (transitionTo newState now s)) \<le> 1"
  using assms by (simp add: transitionTo_rendered Let_def)

lemma animate_progress_unit:
  assumes inv: "0 \<le> progress (transition s) \<and> progress (transition s) \<le> 1"
    and clock: "\<And>r. transitionRef s = Some r \<Longrightarrow> startTime r \<le> now \<and> 0 < duration r"
  shows "0 \<le> progress (transition (animate now s)) \<and>
         progress (transition (animate now s)) \<le> 1"
proof (cases "transitionRef s")
  case None
  then show ?thesis using inv by (simp add: animate_def)
next
  case (Some r)
  show ?thesis
  proof (cases "rawProgress r now \<ge> 1")
    case True
    then show ?thesis using Some by (simp add: animate_def Let_def)
  next
    case False
    have "0 \<le> (now - startTime r) / duration r" using clock [OF Some] by simp
    then have "0 \<le> rawProgress r now" "rawProgress r now \<le> 1"
      by (simp_all add: rawProgress_def)
    from ease_range [OF this] show ?thesis
      using Some False by (simp add: animate_def Let_def)
  qed
qed

section \<open>Properties of the cloud particle system\<close>

subsection \<open>The soft boundary\<close>

lemma maxDist_pos: "0 < maxDist layer"
  by (simp add: maxDist_def)

lemma maxDist_shells: "maxDist 0 = 0.8" "maxDist 1 = 1.5" "maxDist 2 = 2.5"
  by (simp_all add: maxDist_def)

lemma v_length_scale:
  "v_length (Vector3 (x * k) (y * k) (z * k)) = \<bar>k\<bar> * v_length (Vector3 x y z)"
proof -
  have "(x * k) * (x * k) + (y * k) * (y * k) + (z * k) * (z * k)
        = k\<^sup>2 * (x * x + y * y + z * z)"
    by (simp add: power2_eq_square algebra_simps)
  then show ?thesis
    by (simp add: v_length_def real_sqrt_mult)
qed

lemma softBoundary_inside:
  "\<not> v_length p > maxDist layer * contr \<Longrightarrow> softBoundary contr layer p = p"
  by (cases p) (simp add: v_length_def)

lemma softBoundary_outside:
  assumes "v_length p > maxDist layer * contr" "0 \<le> contr"
  shows "v_length (softBoundary contr layer p) = 0.95 * (maxDist layer * contr)"
proof (cases p)
  case (Vector3 x y z)
  let ?D = "v_length (Vector3 x y z)"
  let ?M = "maxDist layer * contr"
  have M: "0 \<le> ?M" using assms(2) maxDist_pos [of layer] by simp
  have D: "0 < ?D" using assms(1) M Vector3 by simp
  have "softBoundary contr layer p
      = Vector3 (x * (?M / ?D * 0.95)) (y * (?M / ?D * 0.95)) (z * (?M / ?D * 0.95))"
    using assms(1) Vector3 by (simp add: v_length_def Let_def)
  then have "v_length (softBoundary contr layer p) = \<bar>?M / ?D * 0.95\<bar> * ?D"
    by (simp only: v_length_scale)
  also have "\<dots> = (?M / ?D * 0.95) * ?D" using M D by simp
  also have "\<dots> = 0.95 * ?M" using D by simp
  finally show ?thesis .
qed

lemma softBoundary_bound:
  assumes "0 \<le> contr"
  shows "v_length (softBoundary contr layer p) \<le> maxDist layer * contr"
proof (cases "v_length p > maxDist layer * contr")
  case True
  have "0 \<le> maxDist layer * contr" using assms maxDist_pos [of layer] by simp
  then show ?thesis using softBoundary_outside [OF True assms] by simp
next
  case False
  then show ?thesis using softBoundary_inside [OF False] by simp
qed

lemma interpolated_between:
  assumes "isTransitioning tr \<longrightarrow> 0 \<le> progress tr \<and> progress tr \<le> 1"
    and "lo \<le> a" "a \<le> hi" "lo \<le> b" "b \<le> hi" "lo \<le> c" "c \<le> hi"
  shows "lo \<le> getInterpolatedValue a b c cs tr \<and> getInterpolatedValue a b c cs tr \<le> hi"
proof (cases "isTransitioning tr")
  case False
  then show ?thesis using assms by (cases cs) (simp_all add: getInterpolatedValue_def)
next
  case True
  define u where "u = stateValues a b c (tr_from tr)"
  define v where "v = stateValues a b c (tr_to tr)"
  define p where "p = progress tr"
  have u: "lo \<le> u" "u \<le> hi" unfolding u_def using assms by (cases "tr_from tr"; simp)+
  have v: "lo \<le> v" "v \<le> hi" unfolding v_def using assms by (cases "tr_to tr"; simp)+
  have p: "0 \<le> p" "p \<le> 1" unfolding p_def using assms(1) True by simp_all
  have eq: "getInterpolatedValue a b c cs tr = u + (v - u) * p"
    using True by (simp add: getInterpolatedValue_def Let_def u_def v_def p_def)
  have conv: "u + (v - u) * p = (1 - p) * u + p * v" by (simp add: algebra_simps)
  have "(1 - p) * lo + p * lo \<le> (1 - p) * u + p * v"
    using u v p by (intro add_mono mult_left_mono) simp_all
  moreover have "(1 - p) * u + p * v \<le> (1 - p) * hi + p * hi"
    using u v p by (intro add_mono mult_left_mono) simp_all
  moreover have "(1 - p) * lo + p * lo = lo" "(1 - p) * hi + p * hi = hi"
    by (simp_all add: algebra_simps)
  ultimately show ?thesis by (simp add: eq conv)
qed

lemma contraction_range:
  assumes "isTransitioning tr \<longrightarrow> 0 \<le> progress tr \<and> progress tr \<le> 1"
  shows "1/2 \<le> contraction (cloudValues cs tr) \<and> contraction (cloudValues cs tr) \<le> 1"
  using interpolated_between [OF assms, where lo = "1/2" and hi = 1 and a = "1.0" and b = "0.7" and c = "0.5" and cs = cs]
  by (simp add: cloudValues_def)

lemma updateParticle_contained:
  assumes "isTransitioning tr \<longrightarrow> 0 \<le> progress tr \<and> progress tr \<le> 1"
  shows "v_length (updateParticle time delta cs tr layer i rnd p)
           \<le> maxDist layer * contraction (cloudValues cs tr)"
proof -
  have "0 \<le> contraction (cloudValues cs tr)" using contraction_range [OF assms, of cs] by simp
  then show ?thesis unfolding updateParticle_def by (rule softBoundary_bound)
qed


lemma v_length_on_axis: "v_length (Vector3 0 y 0) = \<bar>y\<bar>"
  by (simp add: v_length_def)

lemma cloudValues_resting_idle:
  "\<not> isTransitioning tr \<Longrightarrow>
   cloudValues resting tr =
     \<lparr>flowSpeed = 0.3, contraction = 1, intensity = 0.4, spiralStrength = 0, chaosAmount = 0.02\<rparr>"
  by (simp add: cloudValues_def getInterpolatedValue_def)

lemma pullTowardCenter_on_axis:
  assumes "0 < y"
  shows "pullTowardCenter fSpeed delta (Vector3 0 y 0) = Vector3 0 (y - 0.01 * fSpeed * delta) 0"
proof -
  have "v_normalize (Vector3 (- 0) (- y) (- 0)) = Vector3 0 (- 1) 0"
    using assms by (simp add: v_normalize_def Let_def v_length_on_axis)
  then show ?thesis by simp
qed

lemma beforeBoundary_on_axis:
  assumes "0 < y" "\<not> isTransitioning tr"
  shows "beforeBoundary 0 delta resting tr layer 0 (1/2, 1/2, 1/2) (Vector3 0 y 0)
         = Vector3 0 (y - 0.003 * delta) 0"
proof -
  have "flowField 0.3 0 delta layer (Vector3 0 y 0) = Vector3 0 y 0" by simp
  moreover have "verticalOscillation 0.3 0 0 (Vector3 0 y 0) = Vector3 0 y 0" by simp
  moreover have "pullTowardCenter 0.3 delta (Vector3 0 y 0) = Vector3 0 (y - 0.003 * delta) 0"
    using pullTowardCenter_on_axis [OF assms(1), of "0.3" delta] by simp
  moreover have "addChaos 0.02 (1/2, 1/2, 1/2) (Vector3 0 (y - 0.003 * delta) 0)
                 = Vector3 0 (y - 0.003 * delta) 0" by simp
  ultimately show ?thesis
    by (simp only: beforeBoundary_def Let_def cloudValues_resting_idle [OF assms(2)]
          CloudValues.simps)
qed

lemma example_inside:
  "updateParticle 0 (1/60) resting (transition useEntityState_init) 0 0 (1/2, 1/2, 1/2)
     (Vector3 0 (39/50) 0) = Vector3 0 (15599/20000) 0"
proof -
  have idle: "\<not> isTransitioning (transition useEntityState_init)"
    by (simp add: useEntityState_init_def)
  have b: "beforeBoundary 0 (1/60) resting (transition useEntityState_init) 0 0 (1/2, 1/2, 1/2)
     (Vector3 0 (39/50) 0) = Vector3 0 (15599/20000) 0"
    using beforeBoundary_on_axis [OF _ idle, of "39/50" "1/60" 0] by simp
  have "\<not> v_length (Vector3 0 (15599/20000) 0) > maxDist 0 * 1"
    by (simp add: v_length_on_axis maxDist_def)
  from softBoundary_inside [OF this] show ?thesis
    by (simp only: updateParticle_def b cloudValues_resting_idle [OF idle] CloudValues.simps)
qed

text \<open>
  Claim C5 as stated fails: a core particle on the vertical axis at height 0.78, in the
  resting state (contraction 1), is within the shell radius 0.8, so the soft boundary
  leaves it alone; it ends the frame at distance 0.77995, above \<open>0.8 * 1 * 0.951\<close>.
\<close>

theorem cloud_margin_counterexample:
  "\<not> v_length (updateParticle 0 (1/60) resting (transition useEntityState_init) 0 0
        (1/2, 1/2, 1/2) (Vector3 0 (39/50) 0))
      \<le> maxDist 0 * contraction (cloudValues resting (transition useEntityState_init)) * 0.951"
proof -
  have idle: "\<not> isTransitioning (transition useEntityState_init)"
    by (simp add: useEntityState_init_def)
  show ?thesis
    by (simp add: example_inside v_length_on_axis cloudValues_resting_idle [OF idle] maxDist_def)
qed

text \<open>
  Claim C6. The soft boundary is the last step applied to a position before it is
  written back, so after every frame every particle's distance from the origin is at
  most the maximum radius of its shell (0.8 core, 1.5 mid, 2.5 edge) times the
  contraction of that frame, whatever the position before the frame, the random
  draws, the time and the frame's duration. The contraction is the interpolated value
  of a snapshot whose progress lies in \<open>[0, 1]\<close>.
\<close>

theorem cloud_containment:
  "((isTransitioning tr \<longrightarrow> 0 \<le> progress tr \<and> progress tr \<le> 1) \<longrightarrow>
     updateParticle time delta cs tr layer i rnd p
       = softBoundary (contraction (cloudValues cs tr)) layer
           (beforeBoundary time delta cs tr layer i rnd p) \<and>
     v_length (updateParticle time delta cs tr layer i rnd p)
       \<le> maxDist layer * contraction (cloudValues cs tr) \<and>
     (\<forall>k < TOTAL_PARTICLES.
        v_length (nebulaCloudFrame time delta cs tr rnd' layers ps ! k)
          \<le> maxDist (layers ! k) * contraction (cloudValues cs tr))) \<and>
   maxDist 0 = 0.8 \<and> maxDist 1 = 1.5 \<and> maxDist 2 = 2.5"
proof (intro conjI impI allI)
  assume h: "isTransitioning tr \<longrightarrow> 0 \<le> progress tr \<and> progress tr \<le> 1"
  show "updateParticle time delta cs tr layer i rnd p
       = softBoundary (contraction (cloudValues cs tr)) layer
           (beforeBoundary time delta cs tr layer i rnd p)"
    by (simp add: updateParticle_def)
  show "v_length (updateParticle time delta cs tr layer i rnd p)
       \<le> maxDist layer * contraction (cloudValues cs tr)"
    by (rule updateParticle_contained [OF h])
  fix k assume "k < TOTAL_PARTICLES"
  then show "v_length (nebulaCloudFrame time delta cs tr rnd' layers ps ! k)
          \<le> maxDist (layers ! k) * contraction (cloudValues cs tr)"
    by (simp add: nebulaCloudFrame_def updateParticle_contained [OF h])
qed (simp_all add: maxDist_shells)

theorem cloud_containment_witness:
  "isTransitioning \<lparr>tr_from = resting, tr_to = thinking, progress = 1/2, isTransitioning = True\<rparr> \<and>
   v_length (updateParticle 0 (1/60) resting
      \<lparr>tr_from = resting, tr_to = thinking, progress = 1/2, isTransitioning = True\<rparr>
      0 0 (1/2, 1/2, 1/2) (Vector3 0 5 0)) \<le> 17/25 \<and>
   v_length (nebulaCloudFrame 0 (1/60) resting
      \<lparr>tr_from = resting, tr_to = thinking, progress = 1/2, isTransitioning = True\<rparr>
      (\<lambda>k. 1/2) (replicate 1000 1) (replicate 1000 (Vector3 3 0 4)) ! 7) \<le> 51/40"
proof -
  let ?tr = "\<lparr>tr_from = resting, tr_to = thinking, progress = 1/2, isTransitioning = True\<rparr>"
  have h: "isTransitioning ?tr \<longrightarrow> 0 \<le> progress ?tr \<and> progress ?tr \<le> 1" by simp
  have c: "contraction (cloudValues resting ?tr) = 17/20"
    by (simp add: cloudValues_def getInterpolatedValue_def)
  have k: "(7::nat) < TOTAL_PARTICLES"
    by (simp add: TOTAL_PARTICLES_def CORE_PARTICLES_def MID_PARTICLES_def EDGE_PARTICLES_def)
  note g = cloud_containment [where tr = ?tr and cs = resting and time = 0 and delta = "1/60"
      and layer = 0 and i = 0 and rnd = "(1/2, 1/2, 1/2)" and p = "Vector3 0 5 0"
      and rnd' = "\<lambda>k. 1/2" and layers = "replicate 1000 1"
      and ps = "replicate 1000 (Vector3 3 0 4)", THEN conjunct1, THEN mp, OF h]
  have a: "v_length (updateParticle 0 (1/60) resting ?tr 0 0 (1/2, 1/2, 1/2) (Vector3 0 5 0))
      \<le> maxDist 0 * (17/20)"
    using g [THEN conjunct2, THEN conjunct1] by (simp only: c)
  have b: "v_length (nebulaCloudFrame 0 (1/60) resting ?tr (\<lambda>k. 1/2) (replicate 1000 1)
      (replicate 1000 (Vector3 3 0 4)) ! 7) \<le> maxDist (replicate 1000 1 ! 7) * (17/20)"
    using g [THEN conjunct2, THEN conjunct2, THEN spec, THEN mp, OF k] by (simp only: c)
  show ?thesis using a b by (simp add: maxDist_def)
qed

subsection \<open>The flow field\<close>

lemma sqrt_factor:
  assumes "x \<noteq> 0"
  shows "sqrt (x * x + z * z) = \<bar>x\<bar> * sqrt (1 + (z / x)\<^sup>2)"
proof -
  have "x * x + z * z = x\<^sup>2 * (1 + (z / x)\<^sup>2)"
    using assms by (simp add: power2_eq_square field_simps)
  then show ?thesis by (simp add: real_sqrt_mult)
qed

lemma sqrt_one_plus_pos: "0 < sqrt (1 + (t::real)\<^sup>2)"
  by (simp add: add_pos_nonneg)

lemma atan2_polar:
  assumes "x \<noteq> 0 \<or> z \<noteq> 0"
  shows "sqrt (x * x + z * z) * cos (atan2 z x) = x"
    and "sqrt (x * x + z * z) * sin (atan2 z x) = z"
proof -
  let ?s = "sqrt (1 + (z / x)\<^sup>2)"
  have s: "?s \<noteq> 0" using sqrt_one_plus_pos [of "z / x"] by simp
  consider (pos) "0 < x" | (neg_up) "x < 0" "0 \<le> z" | (neg_down) "x < 0" "z < 0"
    | (up) "x = 0" "0 < z" | (down) "x = 0" "z < 0"
    using assms by linarith
  then have "sqrt (x * x + z * z) * cos (atan2 z x) = x
           \<and> sqrt (x * x + z * z) * sin (atan2 z x) = z"
  proof cases
    case pos
    then have "atan2 z x = arctan (z / x)" by (simp add: atan2_def)
    moreover have "sqrt (x * x + z * z) = x * ?s" using pos sqrt_factor [of x z] by simp
    ultimately show ?thesis using s pos by (simp add: cos_arctan sin_arctan)
  next
    case neg_up
    then have "atan2 z x = arctan (z / x) + pi" by (simp add: atan2_def)
    moreover have "sqrt (x * x + z * z) = - x * ?s" using neg_up sqrt_factor [of x z] by simp
    ultimately show ?thesis using s neg_up by (simp add: cos_arctan sin_arctan)
  next
    case neg_down
    then have "atan2 z x = arctan (z / x) - pi" by (simp add: atan2_def)
    moreover have "sqrt (x * x + z * z) = - x * ?s" using neg_down sqrt_factor [of x z] by simp
    moreover have "cos (arctan (z / x) - pi) = - cos (arctan (z / x))"
      "sin (arctan (z / x) - pi) = - sin (arctan (z / x))"
      by (simp_all add: cos_diff sin_diff)
    ultimately show ?thesis using s neg_down by (simp add: cos_arctan sin_arctan)
  next
    case up
    then show ?thesis by (simp add: atan2_def)
  next
    case down
    then show ?thesis by (simp add: atan2_def)
  qed
  then show "sqrt (x * x + z * z) * cos (atan2 z x) = x"
    and "sqrt (x * x + z * z) * sin (atan2 z x) = z" by simp_all
qed

lemma horizontalDist_polar: "horizontalDist (Vector3 (cos a * r) y (sin a * r)) = \<bar>r\<bar>"
proof -
  have one: "cos a * cos a + sin a * sin a = 1"
    using sin_cos_squared_add2 [of a] by (simp add: power2_eq_square)
  have "cos a * r * (cos a * r) + sin a * r * (sin a * r)
        = r * r * (cos a * cos a + sin a * sin a)"
    by (simp only: algebra_simps)
  then have "cos a * r * (cos a * r) + sin a * r * (sin a * r) = r * r"
    by (simp only: one mult_1_right)
  then show ?thesis by (simp add: horizontalDist_def)
qed

lemma flowField_moving:
  assumes "0.01 < horizontalDist (Vector3 x y z)"
  shows "flowField fSpeed sStrength delta layer (Vector3 x y z) =
    Vector3 (cos (atan2 z x + fSpeed * (0.5 + layer * 0.3) * delta)
               * max 0.1 (horizontalDist (Vector3 x y z) - sStrength * delta * (layer + 1) * 0.1))
            y
            (sin (atan2 z x + fSpeed * (0.5 + layer * 0.3) * delta)
               * max 0.1 (horizontalDist (Vector3 x y z) - sStrength * delta * (layer + 1) * 0.1))"
  using assms by (simp add: horizontalDist_def Let_def)

lemma flowField_still:
  assumes "\<not> 0.01 < horizontalDist (Vector3 x y z)"
  shows "flowField fSpeed sStrength delta layer (Vector3 x y z) = Vector3 x y z"
  using assms by (simp add: horizontalDist_def Let_def)

lemma flowField_radius:
  assumes "0.01 < horizontalDist (Vector3 x y z)"
  shows "horizontalDist (flowField fSpeed sStrength delta layer (Vector3 x y z))
         = max 0.1 (horizontalDist (Vector3 x y z) - sStrength * delta * (layer + 1) * 0.1)"
proof -
  have "\<bar>max 0.1 (horizontalDist (Vector3 x y z) - sStrength * delta * (layer + 1) * 0.1)\<bar>
      = max 0.1 (horizontalDist (Vector3 x y z) - sStrength * delta * (layer + 1) * 0.1)"
    by simp
  then show ?thesis
    by (simp only: flowField_moving [OF assms] horizontalDist_polar)
qed

lemma horizontalDist_is_polar_radius:
  assumes "0 < horizontalDist (Vector3 x y z)"
  shows "x = horizontalDist (Vector3 x y z) * cos (atan2 z x)"
    and "z = horizontalDist (Vector3 x y z) * sin (atan2 z x)"
proof -
  have "x \<noteq> 0 \<or> z \<noteq> 0" using assms by (auto simp add: horizontalDist_def)
  from atan2_polar [OF this] show "x = horizontalDist (Vector3 x y z) * cos (atan2 z x)"
    and "z = horizontalDist (Vector3 x y z) * sin (atan2 z x)"
    by (simp_all add: horizontalDist_def)
qed

lemma horizontalDist_on_x: "horizontalDist (Vector3 x y 0) = \<bar>x\<bar>"
  by (simp add: horizontalDist_def)

text \<open>
  Claim C8 as stated fails: a particle at horizontal radius 0.05 with spiral strength 0
  is not pulled inward by 0; the floor of the new radius moves it out to 0.1.
\<close>

theorem flowField_counterexample:
  "horizontalDist (flowField 0.3 0 (1/60) 0 (Vector3 (1/20) 0 0))
   \<noteq> horizontalDist (Vector3 (1/20) 0 0) - 0 * (1/60) * (0 + 1) * 0.1"
proof -
  have "0.01 < horizontalDist (Vector3 (1/20) 0 0)" by (simp add: horizontalDist_on_x)
  from flowField_radius [OF this, of "0.3" 0 "1/60" 0]
  show ?thesis by (simp add: horizontalDist_on_x)
qed

subsection \<open>The frame\<close>

text \<open>
  Claim C5, amended. When the position reached before the soft boundary is farther
  from the origin than the shell radius times the contraction, the frame leaves the
  particle at exactly 0.95 times that bound, hence below 0.951 times it. Otherwise the
  soft boundary does not move the particle, and its distance is bounded by the shell
  radius times the contraction only.
\<close>

theorem cloud_clamp_margin:
  "(isTransitioning tr \<longrightarrow> 0 \<le> progress tr \<and> progress tr \<le> 1) \<longrightarrow>
     (v_length (beforeBoundary time delta cs tr layer i rnd p)
         > maxDist layer * contraction (cloudValues cs tr) \<longrightarrow>
        v_length (updateParticle time delta cs tr layer i rnd p)
          = 0.95 * (maxDist layer * contraction (cloudValues cs tr)) \<and>
        v_length (updateParticle time delta cs tr layer i rnd p)
          \<le> maxDist layer * contraction (cloudValues cs tr) * 0.951) \<and>
     (\<not> v_length (beforeBoundary time delta cs tr layer i rnd p)
         > maxDist layer * contraction (cloudValues cs tr) \<longrightarrow>
        updateParticle time delta cs tr layer i rnd p
          = beforeBoundary time delta cs tr layer i rnd p \<and>
        v_length (updateParticle time delta cs tr layer i rnd p)
          \<le> maxDist layer * contraction (cloudValues cs tr))"
proof (intro conjI impI)
  assume h: "isTransitioning tr \<longrightarrow> 0 \<le> progress tr \<and> progress tr \<le> 1"
  let ?c = "contraction (cloudValues cs tr)"
  let ?b = "beforeBoundary time delta cs tr layer i rnd p"
  have c: "0 \<le> ?c" using contraction_range [OF h, of cs] by simp
  have M: "0 \<le> maxDist layer * ?c" using c maxDist_pos [of layer] by simp
  {
    assume out: "maxDist layer * ?c < v_length ?b"
    show eq: "v_length (updateParticle time delta cs tr layer i rnd p) = 0.95 * (maxDist layer * ?c)"
      unfolding updateParticle_def by (rule softBoundary_outside [OF out c])
    show "v_length (updateParticle time delta cs tr layer i rnd p) \<le> maxDist layer * ?c * 0.951"
      using M by (simp add: eq)
  }
  {
    assume inside: "\<not> maxDist layer * ?c < v_length ?b"
    show eq: "updateParticle time delta cs tr layer i rnd p = ?b"
      unfolding updateParticle_def by (rule softBoundary_inside [OF inside])
    show "v_length (updateParticle time delta cs tr layer i rnd p) \<le> maxDist layer * ?c"
      using inside by (simp add: eq)
  }
qed

theorem cloud_clamp_margin_witness:
  "v_length (beforeBoundary 0 (1/60) resting (transition useEntityState_init) 0 0
       (1/2, 1/2, 1/2) (Vector3 0 5 0))
     > maxDist 0 * contraction (cloudValues resting (transition useEntityState_init)) \<and>
   v_length (updateParticle 0 (1/60) resting (transition useEntityState_init) 0 0
       (1/2, 1/2, 1/2) (Vector3 0 5 0)) = 19/25 \<and>
   \<not> v_length (beforeBoundary 0 (1/60) resting (transition useEntityState_init) 0 0
       (1/2, 1/2, 1/2) (Vector3 0 (39/50) 0))
     > maxDist 0 * contraction (cloudValues resting (transition useEntityState_init)) \<and>
   updateParticle 0 (1/60) resting (transition useEntityState_init) 0 0
       (1/2, 1/2, 1/2) (Vector3 0 (39/50) 0) = Vector3 0 (15599/20000) 0"
proof -
  let ?tr = "transition useEntityState_init"
  have idle: "\<not> isTransitioning ?tr" by (simp add: useEntityState_init_def)
  then have h: "isTransitioning ?tr \<longrightarrow> 0 \<le> progress ?tr \<and> progress ?tr \<le> 1" by simp
  have c: "contraction (cloudValues resting ?tr) = 1"
    by (simp add: cloudValues_resting_idle [OF idle])
  have b1: "beforeBoundary 0 (1/60) resting ?tr 0 0 (1/2, 1/2, 1/2) (Vector3 0 5 0)
      = Vector3 0 (99999/20000) 0"
    using beforeBoundary_on_axis [OF _ idle, of 5 "1/60" 0] by simp
  have b2: "beforeBoundary 0 (1/60) resting ?tr 0 0 (1/2, 1/2, 1/2) (Vector3 0 (39/50) 0)
      = Vector3 0 (15599/20000) 0"
    using beforeBoundary_on_axis [OF _ idle, of "39/50" "1/60" 0] by simp
  have out: "v_length (beforeBoundary 0 (1/60) resting ?tr 0 0 (1/2, 1/2, 1/2) (Vector3 0 5 0))
      > maxDist 0 * contraction (cloudValues resting ?tr)"
    by (simp add: b1 c v_length_on_axis maxDist_def)
  have ins: "\<not> v_length (beforeBoundary 0 (1/60) resting ?tr 0 0 (1/2, 1/2, 1/2)
      (Vector3 0 (39/50) 0)) > maxDist 0 * contraction (cloudValues resting ?tr)"
    by (simp add: b2 c v_length_on_axis maxDist_def)
  note g = cloud_clamp_margin [where tr = ?tr and cs = resting and time = 0 and delta = "1/60"
      and layer = 0 and i = 0 and rnd = "(1/2, 1/2, 1/2)" and p = "Vector3 0 5 0", THEN mp, OF h]
  note g' = cloud_clamp_margin [where tr = ?tr and cs = resting and time = 0 and delta = "1/60"
      and layer = 0 and i = 0 and rnd = "(1/2, 1/2, 1/2)" and p = "Vector3 0 (39/50) 0",
      THEN mp, OF h]
  have r1: "v_length (updateParticle 0 (1/60) resting ?tr 0 0 (1/2, 1/2, 1/2) (Vector3 0 5 0))
      = 0.95 * (maxDist 0 * contraction (cloudValues resting ?tr))"
    using g [THEN conjunct1, THEN mp, OF out] by simp
  have r2: "updateParticle 0 (1/60) resting ?tr 0 0 (1/2, 1/2, 1/2) (Vector3 0 (39/50) 0)
      = beforeBoundary 0 (1/60) resting ?tr 0 0 (1/2, 1/2, 1/2) (Vector3 0 (39/50) 0)"
    using g' [THEN conjunct2, THEN mp, OF ins] by simp
  have r1': "v_length (updateParticle 0 (1/60) resting ?tr 0 0 (1/2, 1/2, 1/2) (Vector3 0 5 0))
      = 19/25"
    by (simp add: r1 c maxDist_def)
  show ?thesis using out ins r1' r2 b2 by simp
qed

text \<open>
  Claim C8, amended. For a particle whose horizontal radius exceeds 0.01, the flow
  step advances the horizontal angle by \<open>flowSpeed * (0.5 + layer * 0.3) * delta\<close>
  and sets the horizontal radius to the larger of 0.1 and
  \<open>dist - spiralStrength * delta * (layer + 1) * 0.1\<close>; a particle at horizontal
  radius 0.01 or less keeps its horizontal position. In both cases the vertical
  coordinate then gains \<open>sin (time * 2 + i * 0.1) * 0.002 * flowSpeed\<close>. Both steps
  come before the pull toward the centre, the jitter and the soft boundary.
\<close>

theorem cloud_flow_steps:
  "(0.01 < horizontalDist (Vector3 x y z) \<longrightarrow>
      x = horizontalDist (Vector3 x y z) * cos (atan2 z x) \<and>
      z = horizontalDist (Vector3 x y z) * sin (atan2 z x) \<and>
      flowField fSpeed sStrength delta layer (Vector3 x y z) =
        Vector3 (cos (atan2 z x + fSpeed * (0.5 + layer * 0.3) * delta)
                   * max 0.1 (horizontalDist (Vector3 x y z) - sStrength * delta * (layer + 1) * 0.1))
                y
                (sin (atan2 z x + fSpeed * (0.5 + layer * 0.3) * delta)
                   * max 0.1 (horizontalDist (Vector3 x y z) - sStrength * delta * (layer + 1) * 0.1)) \<and>
      horizontalDist (flowField fSpeed sStrength delta layer (Vector3 x y z))
        = max 0.1 (horizontalDist (Vector3 x y z) - sStrength * delta * (layer + 1) * 0.1)) \<and>
   (\<not> 0.01 < horizontalDist (Vector3 x y z) \<longrightarrow>
      flowField fSpeed sStrength delta layer (Vector3 x y z) = Vector3 x y z) \<and>
   verticalOscillation fSpeed time i (Vector3 x y z)
     = Vector3 x (y + sin (time * 2 + real i * 0.1) * 0.002 * fSpeed) z \<and>
   updateParticle time delta cs tr layer i rnd p =
     softBoundary (contraction (cloudValues cs tr)) layer
       (addChaos (chaosAmount (cloudValues cs tr)) rnd
         (pullTowardCenter (flowSpeed (cloudValues cs tr)) delta
           (verticalOscillation (flowSpeed (cloudValues cs tr)) time i
             (flowField (flowSpeed (cloudValues cs tr)) (spiralStrength (cloudValues cs tr))
                delta layer p))))"
proof (intro conjI impI)
  assume m: "0.01 < horizontalDist (Vector3 x y z)"
  then have pos: "0 < horizontalDist (Vector3 x y z)" by simp
  show "x = horizontalDist (Vector3 x y z) * cos (atan2 z x)"
    by (rule horizontalDist_is_polar_radius(1) [OF pos])
  show "z = horizontalDist (Vector3 x y z) * sin (atan2 z x)"
    by (rule horizontalDist_is_polar_radius(2) [OF pos])
  show "flowField fSpeed sStrength delta layer (Vector3 x y z) =
        Vector3 (cos (atan2 z x + fSpeed * (0.5 + layer * 0.3) * delta)
                   * max 0.1 (horizontalDist (Vector3 x y z) - sStrength * delta * (layer + 1) * 0.1))
                y
                (sin (atan2 z x + fSpeed * (0.5 + layer * 0.3) * delta)
                   * max 0.1 (horizontalDist (Vector3 x y z) - sStrength * delta * (layer + 1) * 0.1))"
    by (rule flowField_moving [OF m])
  show "horizontalDist (flowField fSpeed sStrength delta layer (Vector3 x y z))
        = max 0.1 (horizontalDist (Vector3 x y z) - sStrength * delta * (layer + 1) * 0.1)"
    by (rule flowField_radius [OF m])
next
  assume "\<not> 0.01 < horizontalDist (Vector3 x y z)"
  then show "flowField fSpeed sStrength delta layer (Vector3 x y z) = Vector3 x y z"
    by (rule flowField_still)
next
  show "verticalOscillation fSpeed time i (Vector3 x y z)
     = Vector3 x (y + sin (time * 2 + real i * 0.1) * 0.002 * fSpeed) z" by simp
  show "updateParticle time delta cs tr layer i rnd p =
     softBoundary (contraction (cloudValues cs tr)) layer
       (addChaos (chaosAmount (cloudValues cs tr)) rnd
         (pullTowardCenter (flowSpeed (cloudValues cs tr)) delta
           (verticalOscillation (flowSpeed (cloudValues cs tr)) time i
             (flowField (flowSpeed (cloudValues cs tr)) (spiralStrength (cloudValues cs tr))
                delta layer p))))"
    by (simp add: updateParticle_def beforeBoundary_def Let_def)
qed

theorem cloud_flow_steps_witness:
  "0.01 < horizontalDist (Vector3 2 0 0) \<and>
   horizontalDist (flowField 0.8 0.3 (1/10) 1 (Vector3 2 0 0)) = 997/500 \<and>
   flowField 0.8 0.3 (1/10) 1 (Vector3 2 0 0)
     = Vector3 (cos (8/125) * (997/500)) 0 (sin (8/125) * (997/500)) \<and>
   \<not> 0.01 < horizontalDist (Vector3 (1/200) 3 0) \<and>
   flowField 0.8 0.3 (1/10) 1 (Vector3 (1/200) 3 0) = Vector3 (1/200) 3 0"
proof -
  have m: "0.01 < horizontalDist (Vector3 2 0 0)" by (simp add: horizontalDist_on_x)
  have n: "\<not> 0.01 < horizontalDist (Vector3 (1/200) 3 0)" by (simp add: horizontalDist_on_x)
  note g = cloud_flow_steps [where x = 2 and y = 0 and z = 0 and fSpeed = "0.8"
      and sStrength = "0.3" and delta = "1/10" and layer = 1, THEN conjunct1, THEN mp, OF m]
  note k = cloud_flow_steps [where x = "1/200" and y = 3 and z = 0 and fSpeed = "0.8"
      and sStrength = "0.3" and delta = "1/10" and layer = 1,
      THEN conjunct2, THEN conjunct1, THEN mp, OF n]
  have a: "atan2 0 2 = 0" by (simp add: atan2_def)
  have r: "horizontalDist (flowField 0.8 0.3 (1/10) 1 (Vector3 2 0 0)) = 997/500"
    using g [THEN conjunct2, THEN conjunct2, THEN conjunct2] by (simp add: horizontalDist_on_x)
  have f: "flowField 0.8 0.3 (1/10) 1 (Vector3 2 0 0)
     = Vector3 (cos (8/125) * (997/500)) 0 (sin (8/125) * (997/500))"
    using g [THEN conjunct2, THEN conjunct2, THEN conjunct1]
    by (simp add: horizontalDist_on_x a)
  show ?thesis using m n r f k by simp
qed

section \<open>Properties of the ring particle system\<close>

lemma applyQuaternion_norm_identity:
  "v_dot (applyQuaternion (Quaternion a b c w) (Vector3 x y z))
         (applyQuaternion (Quaternion a b c w) (Vector3 x y z))
   - v_dot (Vector3 x y z) (Vector3 x y z)
   = 4 * (w * w + (a * a + b * b + c * c) - 1)
       * ((a * a + b * b + c * c) * (x * x + y * y + z * z)
          - (a * x + b * y + c * z) * (a * x + b * y + c * z))"
  by (simp add: v_dot_def Let_def algebra_simps)

lemma applyQuaternion_axis_dot:
  "v_dot (applyQuaternion (Quaternion (ax * s) (ay * s) (az * s) w) (Vector3 x y z))
         (Vector3 ax ay az)
   = v_dot (Vector3 x y z) (Vector3 ax ay az)"
  by (simp add: v_dot_def Let_def algebra_simps)

lemma matrix_dot_identity:
  "v_dot (applyMatrix4 (makeRotationFromQuaternion (Quaternion a b c w)) (Vector3 x y z))
         (applyMatrix4 (makeRotationFromQuaternion (Quaternion a b c w)) (Vector3 x' y' z'))
   - v_dot (Vector3 x y z) (Vector3 x' y' z')
   = 4 * (w * w + (a * a + b * b + c * c) - 1)
       * ((a * a + b * b + c * c) * (x * x' + y * y' + z * z')
          - (a * x + b * y + c * z) * (a * x' + b * y' + c * z'))"
  by (simp add: v_dot_def makeRotationFromQuaternion_def Let_def algebra_simps)


lemma axisDistance_unit:
  assumes "v_dot a a = 1"
  shows "axisDistance a p = sqrt (v_dot p p - v_dot p a * v_dot p a)"
proof -
  obtain ax ay az where a: "a = Vector3 ax ay az" by (cases a)
  obtain x y z where p: "p = Vector3 x y z" by (cases p)
  define k where "k = v_dot p a"
  have "(x - k * ax) * (x - k * ax) + (y - k * ay) * (y - k * ay) + (z - k * az) * (z - k * az)
        = v_dot p p - 2 * k * v_dot p a + k * k * v_dot a a"
    by (simp add: a p v_dot_def algebra_simps)
  also have "\<dots> = v_dot p p - k * k" by (simp add: assms k_def)
  finally have sq: "(x - k * ax) * (x - k * ax) + (y - k * ay) * (y - k * ay)
        + (z - k * az) * (z - k * az) = v_dot p p - k * k" .
  have "axisDistance a p
        = sqrt ((x - k * ax) * (x - k * ax) + (y - k * ay) * (y - k * ay)
                + (z - k * az) * (z - k * az))"
    unfolding axisDistance_def Let_def assms v_length_def k_def by (simp add: a p)
  then show ?thesis using sq by (simp add: k_def)
qed

lemma applyQuaternion_axis_angle_dot:
  "v_dot (applyQuaternion (setFromAxisAngle a angle) p) a = v_dot p a"
proof -
  obtain ax ay az where a: "a = Vector3 ax ay az" by (cases a)
  obtain x y z where p: "p = Vector3 x y z" by (cases p)
  have q: "setFromAxisAngle (Vector3 ax ay az) angle
      = Quaternion (ax * sin (angle / 2)) (ay * sin (angle / 2)) (az * sin (angle / 2))
          (cos (angle / 2))"
    by (simp add: setFromAxisAngle_def Let_def)
  show ?thesis
    by (simp only: a p q applyQuaternion_axis_dot)
qed

lemma applyQuaternion_axis_angle_norm:
  assumes "v_dot a a = 1"
  shows "v_dot (applyQuaternion (setFromAxisAngle a angle) p)
               (applyQuaternion (setFromAxisAngle a angle) p) = v_dot p p"
proof -
  obtain ax ay az where a: "a = Vector3 ax ay az" by (cases a)
  obtain x y z where p: "p = Vector3 x y z" by (cases p)
  define s where "s = sin (angle / 2)"
  define c where "c = cos (angle / 2)"
  have unit: "ax * ax + ay * ay + az * az = 1" using assms by (simp add: a v_dot_def)
  have sc: "c * c + s * s = 1"
    unfolding s_def c_def using sin_cos_squared_add2 [of "angle / 2"]
    by (simp add: power2_eq_square)
  have "ax * s * (ax * s) + ay * s * (ay * s) + az * s * (az * s)
        = s * s * (ax * ax + ay * ay + az * az)"
    by (simp only: algebra_simps)
  then have V: "ax * s * (ax * s) + ay * s * (ay * s) + az * s * (az * s) = s * s"
    by (simp only: unit mult_1_right)
  have q: "setFromAxisAngle a angle = Quaternion (ax * s) (ay * s) (az * s) c"
    by (simp add: setFromAxisAngle_def Let_def a s_def c_def)
  have "c * c + (ax * s * (ax * s) + ay * s * (ay * s) + az * s * (az * s)) - 1 = 0"
    by (simp only: V sc diff_self)
  then have "v_dot (applyQuaternion (Quaternion (ax * s) (ay * s) (az * s) c) (Vector3 x y z))
         (applyQuaternion (Quaternion (ax * s) (ay * s) (az * s) c) (Vector3 x y z))
       - v_dot (Vector3 x y z) (Vector3 x y z) = 0"
    by (simp only: applyQuaternion_norm_identity mult_zero_right mult_zero_left)
  then show ?thesis by (simp add: q p)
qed

lemma rotation_keeps_axisDistance:
  assumes "v_dot a a = 1"
  shows "axisDistance a (applyQuaternion (setFromAxisAngle a angle) p) = axisDistance a p"
  by (simp only: axisDistance_unit [OF assms] applyQuaternion_axis_angle_dot
        applyQuaternion_axis_angle_norm [OF assms])


lemma matrix_keeps_dot:
  assumes "a * a + b * b + c * c + w * w = 1"
  shows "v_dot (applyMatrix4 (makeRotationFromQuaternion (Quaternion a b c w)) p)
               (applyMatrix4 (makeRotationFromQuaternion (Quaternion a b c w)) p')
         = v_dot p p'"
proof -
  obtain x y z where p: "p = Vector3 x y z" by (cases p)
  obtain x' y' z' where p': "p' = Vector3 x' y' z'" by (cases p')
  have "w * w + (a * a + b * b + c * c) - 1 = 0" using assms by simp
  then have "v_dot (applyMatrix4 (makeRotationFromQuaternion (Quaternion a b c w)) (Vector3 x y z))
         (applyMatrix4 (makeRotationFromQuaternion (Quaternion a b c w)) (Vector3 x' y' z'))
       - v_dot (Vector3 x y z) (Vector3 x' y' z') = 0"
    by (simp only: matrix_dot_identity mult_zero_right mult_zero_left)
  then show ?thesis by (simp add: p p')
qed

lemma up_column:
  assumes k: "2 * r * (k * k) = 1" and unit: "ax * ax + az * az = (1 - ay) * r"
  shows "applyMatrix4 (makeRotationFromQuaternion (Quaternion (az * k) 0 (- ax * k) (r * k)))
           (Vector3 0 1 0) = Vector3 ax ay az"
proof -
  have e4: "r * k * (- ax * k + - ax * k) = - ax"
  proof -
    have "r * k * (- ax * k + - ax * k) = - ax * (2 * r * (k * k))" by (simp add: algebra_simps)
    then show ?thesis by (simp only: k mult_1_right)
  qed
  have e6: "r * k * (az * k + az * k) = az"
  proof -
    have "r * k * (az * k + az * k) = az * (2 * r * (k * k))" by (simp add: algebra_simps)
    then show ?thesis by (simp only: k mult_1_right)
  qed
  have e5: "1 - (az * k * (az * k + az * k) + - ax * k * (- ax * k + - ax * k)) = ay"
  proof -
    have "az * k * (az * k + az * k) + - ax * k * (- ax * k + - ax * k)
          = 2 * (k * k) * (ax * ax + az * az)" by (simp add: algebra_simps)
    also have "\<dots> = 2 * (k * k) * ((1 - ay) * r)" by (simp only: unit)
    also have "\<dots> = (1 - ay) * (2 * r * (k * k))" by (simp add: algebra_simps)
    also have "\<dots> = 1 - ay" by (simp only: k mult_1_right)
    finally show ?thesis by simp
  qed
  show ?thesis
    using e4 e5 e6 by (simp add: makeRotationFromQuaternion_def Let_def)
qed

lemma setFromUnitVectors_up:
  assumes unit: "ax * ax + ay * ay + az * az = 1" and eps: "EPSILON \<le> 1 + ay"
  shows "\<exists>k. 2 * (1 + ay) * (k * k) = 1 \<and>
             setFromUnitVectors (Vector3 0 1 0) (Vector3 ax ay az)
               = Quaternion (az * k) 0 (- ax * k) ((1 + ay) * k)"
proof -
  define r where "r = 1 + ay"
  have rpos: "0 < r" using eps by (simp add: r_def EPSILON_def) 
  have sq: "az * az + ax * ax + r * r = 2 * r"
  proof -
    have "az * az + ax * ax + r * r = (ax * ax + ay * ay + az * az) + 1 + 2 * ay"
      by (simp add: r_def algebra_simps)
    then show ?thesis by (simp add: unit r_def)
  qed
  define L where "L = sqrt (2 * r)"
  have Lpos: "0 < L" using rpos by (simp add: L_def)
  have LL: "L * L = 2 * r" using rpos by (simp add: L_def)
  have len: "q_length (Quaternion az 0 (- ax) r) = L"
    using sq by (simp add: q_length_def L_def)
  have "setFromUnitVectors (Vector3 0 1 0) (Vector3 ax ay az)
        = q_normalize (Quaternion az 0 (- ax) r)"
    using eps by (simp add: setFromUnitVectors_def v_dot_def Let_def r_def add.commute)
  also have "\<dots> = Quaternion (az * (1 / L)) 0 (- ax * (1 / L)) (r * (1 / L))"
    using Lpos by (simp add: q_normalize_def len Let_def)
  finally have q: "setFromUnitVectors (Vector3 0 1 0) (Vector3 ax ay az)
        = Quaternion (az * (1 / L)) 0 (- ax * (1 / L)) (r * (1 / L))" .
  have "2 * r * ((1 / L) * (1 / L)) = (2 * r) / (L * L)" by simp
  also have "\<dots> = 1" using rpos by (simp add: LL)
  finally have "2 * r * ((1 / L) * (1 / L)) = 1" .
  then show ?thesis using q unfolding r_def by blast
qed


lemma ringBasePosition_on_ring:
  assumes unit: "v_dot (axis cfg) (axis cfg) = 1"
    and eps: "EPSILON \<le> 1 + v_y (axis cfg)"
    and rad: "0 \<le> radius cfg"
  shows "axisDistance (axis cfg) (ringBasePosition cfg i) = radius cfg"
proof -
  obtain ax ay az where a: "axis cfg = Vector3 ax ay az" by (cases "axis cfg")
  have u: "ax * ax + ay * ay + az * az = 1" using unit by (simp add: a v_dot_def)
  have e: "EPSILON \<le> 1 + ay" using eps by (simp add: a)
  obtain k where k: "2 * (1 + ay) * (k * k) = 1"
    and q: "setFromUnitVectors (Vector3 0 1 0) (Vector3 ax ay az)
              = Quaternion (az * k) 0 (- ax * k) ((1 + ay) * k)"
    using setFromUnitVectors_up [OF u e] by blast
  let ?M = "makeRotationFromQuaternion (Quaternion (az * k) 0 (- ax * k) ((1 + ay) * k))"
  define t where "t = (real i / real PARTICLES_PER_RING) * pi * 2"
  let ?p0 = "Vector3 (cos t * radius cfg) 0 (sin t * radius cfg)"
  have plane: "ax * ax + az * az = (1 - ay) * (1 + ay)"
  proof -
    have "ax * ax + az * az = (ax * ax + ay * ay + az * az) - ay * ay" by simp
    also have "\<dots> = 1 - ay * ay" by (simp only: u)
    also have "\<dots> = (1 - ay) * (1 + ay)" by (simp add: algebra_simps)
    finally show ?thesis .
  qed
  have qunit: "az * k * (az * k) + 0 * 0 + - ax * k * (- ax * k)
               + (1 + ay) * k * ((1 + ay) * k) = 1"
  proof -
    have "az * k * (az * k) + 0 * 0 + - ax * k * (- ax * k) + (1 + ay) * k * ((1 + ay) * k)
          = (k * k) * ((ax * ax + az * az) + (1 + ay) * (1 + ay))"
      by (simp add: algebra_simps)
    also have "\<dots> = (k * k) * ((1 - ay) * (1 + ay) + (1 + ay) * (1 + ay))"
      by (simp only: plane)
    also have "\<dots> = 2 * (1 + ay) * (k * k)" by (simp add: algebra_simps)
    finally show ?thesis by (simp only: k)
  qed
  have up: "applyMatrix4 ?M (Vector3 0 1 0) = Vector3 ax ay az"
    by (rule up_column [OF k plane])
  have pos: "ringBasePosition cfg i = applyMatrix4 ?M ?p0"
    by (simp add: ringBasePosition_def Let_def a q t_def)
  have "v_dot (applyMatrix4 ?M ?p0) (applyMatrix4 ?M (Vector3 0 1 0)) = v_dot ?p0 (Vector3 0 1 0)"
    by (rule matrix_keeps_dot [OF qunit])
  then have "v_dot (applyMatrix4 ?M ?p0) (Vector3 ax ay az) = v_dot ?p0 (Vector3 0 1 0)"
    by (simp only: up)
  moreover have "v_dot ?p0 (Vector3 0 1 0) = 0" by (simp add: v_dot_def)
  ultimately have d: "v_dot (ringBasePosition cfg i) (axis cfg) = 0"
    by (simp only: pos a)
  have one: "cos t * cos t + sin t * sin t = 1"
    using sin_cos_squared_add2 [of t] by (simp add: power2_eq_square)
  have e1: "cos t * radius cfg * (cos t * radius cfg) + sin t * radius cfg * (sin t * radius cfg)
      = radius cfg * radius cfg * (cos t * cos t + sin t * sin t)"
    by (simp only: algebra_simps)
  have "v_dot ?p0 ?p0
      = cos t * radius cfg * (cos t * radius cfg) + sin t * radius cfg * (sin t * radius cfg)"
    by (simp add: v_dot_def)
  then have n0: "v_dot ?p0 ?p0 = radius cfg * radius cfg"
    by (simp only: e1 one mult_1_right)
  have "v_dot (applyMatrix4 ?M ?p0) (applyMatrix4 ?M ?p0) = v_dot ?p0 ?p0"
    by (rule matrix_keeps_dot [OF qunit])
  then have n: "v_dot (ringBasePosition cfg i) (ringBasePosition cfg i) = radius cfg * radius cfg"
    by (simp only: pos n0)
  show ?thesis
    using rad by (simp add: axisDistance_unit [OF unit] d n)
qed

lemma RING_CONFIGS_axes:
  assumes "cfg \<in> set RING_CONFIGS"
  shows "v_dot (axis cfg) (axis cfg) = 1 \<and> EPSILON \<le> 1 + v_y (axis cfg) \<and> 0 \<le> radius cfg"
proof -
  have n: "v_normalize (Vector3 1 1 0) = Vector3 (1 / sqrt 2) (1 / sqrt 2) 0"
    by (simp add: v_normalize_def v_length_def Let_def)
  have "(0::real) \<le> 1 / sqrt 2" by simp
  then have e: "EPSILON \<le> 1 + 1 / sqrt 2" by (simp add: EPSILON_def add_increasing2)
  have h: "1 / sqrt 2 * (1 / sqrt 2) + 1 / sqrt 2 * (1 / sqrt 2) = (1::real)" by simp
  from assms consider "cfg = \<lparr>axis = Vector3 1 0 0, radius = 2.0, speed = 1.0, phase = 0\<rparr>"
    | "cfg = \<lparr>axis = Vector3 0 1 0, radius = 1.8, speed = - 0.8, phase = pi / 4\<rparr>"
    | "cfg = \<lparr>axis = Vector3 0 0 1, radius = 1.6, speed = 0.9, phase = pi / 2\<rparr>"
    | "cfg = \<lparr>axis = Vector3 (1 / sqrt 2) (1 / sqrt 2) 0, radius = 1.4, speed = - 0.7,
               phase = pi * 0.75\<rparr>"
    by (auto simp add: RING_CONFIGS_def n)
  then show ?thesis
  proof cases
    case 1 then show ?thesis by (simp add: v_dot_def EPSILON_def)
  next
    case 2 then show ?thesis by (simp add: v_dot_def EPSILON_def)
  next
    case 3 then show ?thesis by (simp add: v_dot_def EPSILON_def)
  next
    case 4 then show ?thesis using e h by (simp add: v_dot_def)
  qed
qed

lemma ringFrame_nth:
  assumes "i < PARTICLES_PER_RING"
  shows "ringFrame cfg delta cs tr ps ! i =
    applyQuaternion
      (setFromAxisAngle (axis cfg) (delta * speed cfg * getInterpolatedValue 0.3 0.8 2.0 cs tr))
      (ps ! i)"
  using assms by (simp add: ringFrame_def Let_def)

lemma ringFrame_keeps_axisDistance:
  assumes "v_dot (axis cfg) (axis cfg) = 1" "i < PARTICLES_PER_RING"
  shows "axisDistance (axis cfg) (ringFrame cfg delta cs tr ps ! i)
         = axisDistance (axis cfg) (ps ! i)"
  by (simp only: ringFrame_nth [OF assms(2)] rotation_keeps_axisDistance [OF assms(1)])

text \<open>
  Claim C7. For each of the four configured rings, every base position computed at
  construction lies at exactly the ring's radius from the ring's axis (for the first
  ring, axis (1, 0, 0) and radius 2). Each frame applies one rotation quaternion about
  the ring's axis to every stored position, which leaves the distance of every
  particle from the axis unchanged; so a frame maps positions that all lie at the
  radius from the axis to positions that all lie at the radius from the axis.
\<close>

theorem ring_axis_distance:
  "\<forall>cfg \<in> set RING_CONFIGS.
     (\<forall>i < PARTICLES_PER_RING.
        axisDistance (axis cfg) (ringBasePositions cfg ! i) = radius cfg) \<and>
     (\<forall>delta cs tr ps. \<forall>i < PARTICLES_PER_RING.
        axisDistance (axis cfg) (ringFrame cfg delta cs tr ps ! i)
          = axisDistance (axis cfg) (ps ! i)) \<and>
     (\<forall>delta cs tr ps.
        (\<forall>i < PARTICLES_PER_RING. axisDistance (axis cfg) (ps ! i) = radius cfg) \<longrightarrow>
        (\<forall>i < PARTICLES_PER_RING.
           axisDistance (axis cfg) (ringFrame cfg delta cs tr ps ! i) = radius cfg))"
proof (intro ballI conjI allI impI)
  fix cfg assume "cfg \<in> set RING_CONFIGS"
  note ok = RING_CONFIGS_axes [OF this]
  note unit = ok [THEN conjunct1]
  {
    fix i assume "i < PARTICLES_PER_RING"
    then show "axisDistance (axis cfg) (ringBasePositions cfg ! i) = radius cfg"
      using ringBasePosition_on_ring [OF unit ok [THEN conjunct2, THEN conjunct1]
          ok [THEN conjunct2, THEN conjunct2]]
      by (simp add: ringBasePositions_def)
  }
  {
    fix delta cs tr ps i assume "i < PARTICLES_PER_RING"
    then show "axisDistance (axis cfg) (ringFrame cfg delta cs tr ps ! i)
          = axisDistance (axis cfg) (ps ! i)"
      by (rule ringFrame_keeps_axisDistance [OF unit])
  }
  {
    fix delta cs tr ps i
    assume inv: "\<forall>i < PARTICLES_PER_RING. axisDistance (axis cfg) (ps ! i) = radius cfg"
      and i: "i < PARTICLES_PER_RING"
    show "axisDistance (axis cfg) (ringFrame cfg delta cs tr ps ! i) = radius cfg"
      using inv i by (simp add: ringFrame_keeps_axisDistance [OF unit i])
  }
qed

theorem ring_axis_distance_witness:
  "\<lparr>axis = Vector3 1 0 0, radius = 2.0, speed = 1.0, phase = 0\<rparr> \<in> set RING_CONFIGS \<and>
   (45::nat) < PARTICLES_PER_RING \<and>
   axisDistance (Vector3 1 0 0)
     (ringBasePositions \<lparr>axis = Vector3 1 0 0, radius = 2.0, speed = 1.0, phase = 0\<rparr> ! 45) = 2 \<and>
   axisDistance (Vector3 1 0 0)
     (ringFrame \<lparr>axis = Vector3 1 0 0, radius = 2.0, speed = 1.0, phase = 0\<rparr> (1/60) acting
        (transition useEntityState_init) (replicate 180 (Vector3 5 0 2)) ! 45) = 2"
proof -
  let ?cfg = "\<lparr>axis = Vector3 1 0 0, radius = 2.0, speed = 1.0, phase = 0\<rparr>"
  have m: "?cfg \<in> set RING_CONFIGS" by (simp add: RING_CONFIGS_def)
  have i: "(45::nat) < PARTICLES_PER_RING" by (simp add: PARTICLES_PER_RING_def)
  note g = ring_axis_distance [THEN bspec, OF m]
  have a: "axisDistance (axis ?cfg) (ringBasePositions ?cfg ! 45) = radius ?cfg"
    using g [THEN conjunct1, THEN spec, THEN mp, OF i] .
  have b: "axisDistance (axis ?cfg) (ringFrame ?cfg (1/60) acting
        (transition useEntityState_init) (replicate 180 (Vector3 5 0 2)) ! 45)
      = axisDistance (axis ?cfg) (replicate 180 (Vector3 5 0 2) ! 45)"
    using g [THEN conjunct2, THEN conjunct1, THEN spec, THEN spec, THEN spec, THEN spec,
        THEN spec, THEN mp, OF i] .
  have c: "axisDistance (Vector3 1 0 0) (Vector3 5 0 2) = 2"
    by (simp add: axisDistance_def v_dot_def v_length_def Let_def)
  show ?thesis using m i a b c by simp
qed

end
